theory Spec2Isabelle
  imports Main
begin

section \<open>Python string primitives used by msub\_generic.py\<close>

text \<open>
  Python \<open>str\<close> values are modelled as \<open>string\<close>: a list of characters, each a code
  point below 256. Python integers are \<open>int\<close>. The whitespace of \<open>str.strip\<close> and
  \<open>str.split\<close> is what \<open>str.isspace\<close> accepts below 256: tab, line feed, vertical tab,
  form feed, carriage return, the four separators 0x1C..0x1F, the space, the next-line
  control 0x85 and the no-break space 0xA0.
\<close>

definition is_space :: "char \<Rightarrow> bool" where
  "is_space c \<longleftrightarrow> c \<in> set [CHR 0x09, CHR 0x0A, CHR 0x0B, CHR 0x0C, CHR 0x0D,
                           CHR 0x1C, CHR 0x1D, CHR 0x1E, CHR 0x1F, CHR 0x20,
                           CHR 0x85, CHR 0xA0]"

text \<open>\<open>s.strip()\<close>\<close>

definition strip :: "string \<Rightarrow> string" where
  "strip s = rev (dropWhile is_space (rev (dropWhile is_space s)))"

text \<open>\<open>s.startswith(p)\<close> and \<open>s.endswith(p)\<close>\<close>

definition startswith :: "string \<Rightarrow> string \<Rightarrow> bool" where
  "startswith s p \<longleftrightarrow> take (length p) s = p"

definition endswith :: "string \<Rightarrow> string \<Rightarrow> bool" where
  "endswith s p \<longleftrightarrow> length p \<le> length s \<and> drop (length s - length p) s = p"

text \<open>\<open>s.split(sep)\<close> for a one-character separator: never returns the empty list.\<close>

fun split_on :: "char \<Rightarrow> string \<Rightarrow> string list" where
  "split_on c [] = [[]]"
| "split_on c (x # xs) =
     (if x = c then [] # split_on c xs
      else (let r = split_on c xs in (x # hd r) # tl r))"

text \<open>\<open>s.split()\<close> without argument: the maximal runs of non-whitespace characters.\<close>

fun split_ws_aux :: "string \<Rightarrow> string \<Rightarrow> string list" where
  "split_ws_aux w [] = (if w = [] then [] else [w])"
| "split_ws_aux w (x # xs) =
     (if is_space x then (if w = [] then split_ws_aux [] xs else w # split_ws_aux [] xs)
      else split_ws_aux (w @ [x]) xs)"

definition split_ws :: "string \<Rightarrow> string list" where
  "split_ws s = split_ws_aux [] s"

text \<open>\<open>sep.join(parts)\<close>\<close>

fun join :: "string \<Rightarrow> string list \<Rightarrow> string" where
  "join sep [] = []"
| "join sep [x] = x"
| "join sep (x # y # ys) = x @ sep @ join sep (y # ys)"

text \<open>\<open>os.path.basename(p)\<close> on a POSIX system: everything after the last slash.\<close>

definition basename :: "string \<Rightarrow> string" where
  "basename p = rev (takeWhile (\<lambda>c. c \<noteq> CHR ''/'') (rev p))"

text \<open>\<open>str(n)\<close> for an integer: the canonical decimal rendering.\<close>

definition digit_char :: "nat \<Rightarrow> char" where
  "digit_char d = ''0123456789'' ! d"

fun str_nat :: "nat \<Rightarrow> string" where
  "str_nat n = (if n < 10 then [digit_char n] else str_nat (n div 10) @ [digit_char (n mod 10)])"

declare str_nat.simps [simp del]

definition str_int :: "int \<Rightarrow> string" where
  "str_int i = (if i < 0 then CHR ''-'' # str_nat (nat (- i)) else str_nat (nat i))"

text \<open>
  \<open>int(s)\<close> for a string, base ten. The whitespace dropped at both ends is not that of
  \<open>str.strip\<close>: a whitespace character above 127 is first replaced by a space, and then
  the C whitespace is skipped (tab, line feed, vertical tab, form feed, carriage return,
  space), so the separators 0x1C..0x1F are not dropped. One sign is allowed, then decimal
  digits with single underscores between digits. \<open>None\<close> is the \<open>ValueError\<close>.

  The interpreter refuses to read an integer of too many digits: with the limit
  \<open>max_str_digits\<close> (\<open>sys.get_int_max_str_digits()\<close>, 4300 unless configured, 0 for no
  limit) a text of more than 640 and more than \<open>max_str_digits\<close> digits is a
  \<open>ValueError\<close>. The limit is modelled here, where text is read; the rendering
  \<open>str_int\<close> is taken to succeed.
\<close>

definition is_int_space :: "char \<Rightarrow> bool" where
  "is_int_space c \<longleftrightarrow> c \<in> set [CHR 0x09, CHR 0x0A, CHR 0x0B, CHR 0x0C, CHR 0x0D, CHR 0x20,
                               CHR 0x85, CHR 0xA0]"

definition int_strip :: "string \<Rightarrow> string" where
  "int_strip s = rev (dropWhile is_int_space (rev (dropWhile is_int_space s)))"

definition int_max_str_digits :: nat where
  "int_max_str_digits = 4300"

definition is_digit :: "char \<Rightarrow> bool" where
  "is_digit c \<longleftrightarrow> c \<in> set ''0123456789''"

definition digit_val :: "char \<Rightarrow> nat" where
  "digit_val c = length (takeWhile (\<lambda>x. x \<noteq> c) ''0123456789'')"

fun parse_digits :: "nat \<Rightarrow> string \<Rightarrow> nat option" where
  "parse_digits acc [] = Some acc"
| "parse_digits acc [c] = (if is_digit c then Some (10 * acc + digit_val c) else None)"
| "parse_digits acc (c # d # cs) =
     (if is_digit c then
        (if d = CHR ''_'' then (if cs = [] then None else parse_digits (10 * acc + digit_val c) cs)
         else parse_digits (10 * acc + digit_val c) (d # cs))
      else None)"

definition too_many_digits :: "nat \<Rightarrow> string \<Rightarrow> bool" where
  "too_many_digits max_str_digits s =
     (let digits = length (filter is_digit (int_strip s))
      in 640 < digits \<and> 0 < max_str_digits \<and> max_str_digits < digits)"

definition py_int :: "nat \<Rightarrow> string \<Rightarrow> int option" where
  "py_int max_str_digits s =
     (let t = int_strip s;
          neg = (t \<noteq> [] \<and> hd t = CHR ''-'');
          body = (if t \<noteq> [] \<and> (hd t = CHR ''-'' \<or> hd t = CHR ''+'') then tl t else t)
      in if body = [] \<or> too_many_digits max_str_digits s then None
         else (case parse_digits 0 body of
                 None \<Rightarrow> None
               | Some n \<Rightarrow> Some (if neg then - int n else int n)))"

text \<open>\<open>'{x:<w}'.format(...)\<close>: left-justified in a field of width \<open>w\<close>.\<close>

definition ljust :: "nat \<Rightarrow> string \<Rightarrow> string" where
  "ljust w s = s @ replicate (w - length s) (CHR '' '')"

section \<open>Exceptions\<close>

datatype py_exc =
    SystemExit int
  | ValueError
  | IndexError
  | FileNotFoundError
  | OSError

section \<open>Command ingestion (the reading loop of \<open>main\<close>)\<close>

text \<open>
  The loop \<open>for l in input_file\<close> receives the lines of the input in order. The
  accumulator is \<open>command_list\<close>; \<open>exit(1)\<close> is \<open>Inl (SystemExit 1)\<close>, \<open>break\<close>
  returns the accumulator without looking at the remaining lines. An interrupt from the
  keyboard while reading is an event from outside and is not modelled.
\<close>

definition is_directive :: "string \<Rightarrow> bool" where
  "is_directive l \<longleftrightarrow> startswith l ''#SBATCH '' \<or> startswith l ''#$ -''"

fun read_commands :: "string list \<Rightarrow> string list \<Rightarrow> py_exc + string list" where
  "read_commands command_list [] = Inr command_list"
| "read_commands command_list (l0 # ls) =
     (let l = strip l0 in
      if is_directive l then Inl (SystemExit 1)
      else if l = ''.'' then Inr command_list
      else if l = '''' \<or> startswith l ''#'' then read_commands command_list ls
      else read_commands (command_list @ [l]) ls)"

section \<open>Command-line arguments\<close>

text \<open>
  The namespace returned by \<open>parse_args\<close>. An option without default is \<open>None\<close> when
  absent. A test \<open>if args.x\<close> is Python truthiness: an absent value, the empty string
  and the integer zero are all false.
\<close>

record args =
  begin_cmd :: "string option"
  cpu :: int
  mem :: "int option"
  environ :: "string option"
  final_cmd :: "string option"
  hold :: "string option"
  nosubmit :: bool
  max_running_task :: "int option"
  iinput :: "string option"
  input_pos :: "string option"
  job_name_arg :: "string option"
  noemail :: bool
  sync :: bool
  hard_sync :: bool
  priority :: int
  queue :: string
  stdoutdir :: string
  quiet :: bool

definition truthy_str :: "string option \<Rightarrow> bool" where
  "truthy_str x = (case x of None \<Rightarrow> False | Some s \<Rightarrow> s \<noteq> [])"

definition truthy_int :: "int option \<Rightarrow> bool" where
  "truthy_int x = (case x of None \<Rightarrow> False | Some n \<Rightarrow> n \<noteq> 0)"

text \<open>\<open>a or b\<close> on optional strings\<close>

definition or_str :: "string option \<Rightarrow> string option \<Rightarrow> string option" where
  "or_str a b = (if truthy_str a then a else b)"

section \<open>The output file handle\<close>

text \<open>
  The handle records the name under which the file was opened and the payloads of the
  \<open>print(..., file=ofh)\<close> calls in order; each call writes its payload and a line feed.
\<close>

record fh =
  fh_name :: string
  printed :: "string list"

definition print_to :: "string \<Rightarrow> fh \<Rightarrow> fh" where
  "print_to x ofh = ofh\<lparr>printed := printed ofh @ [x]\<rparr>"

definition contents :: "fh \<Rightarrow> string" where
  "contents ofh = concat (map (\<lambda>p. p @ [CHR 0x0A]) (printed ofh))"

text \<open>The inner function \<open>P\<close> of \<open>write_header\<close>: one \<open>print\<close> per argument.\<close>

definition P :: "string list \<Rightarrow> fh \<Rightarrow> fh" where
  "P xs ofh = foldl (\<lambda>h l. print_to l h) ofh xs"

section \<open>Dependency translation\<close>

text \<open>
  The list comprehension \<open>[str(int(j)) for j in ...]\<close> raises at the first entry that
  \<open>int\<close> rejects.
\<close>

fun int_strs :: "string list \<Rightarrow> py_exc + string list" where
  "int_strs [] = Inr []"
| "int_strs (j # js) =
     (case py_int int_max_str_digits j of
        None \<Rightarrow> Inl ValueError
      | Some n \<Rightarrow> (case int_strs js of Inl e \<Rightarrow> Inl e | Inr r \<Rightarrow> Inr (str_int n # r)))"

definition munge_hold_arg :: "string \<Rightarrow> py_exc + string" where
  "munge_hold_arg hold_arg =
     (if CHR '':'' \<in> set hold_arg then Inr hold_arg
      else (case int_strs (split_on (CHR '','') hold_arg) of
              Inl e \<Rightarrow> Inl e
            | Inr r \<Rightarrow> Inr (''afterok:'' @ join '':'' r)))"

section \<open>Script header, task branches and footer\<close>

text \<open>The local variables of \<open>write_header\<close>.\<close>

definition cpu_count :: "args \<Rightarrow> py_exc + int" where
  "cpu_count a =
     (if cpu a = 1 \<and> truthy_str (environ a) then
        (case split_ws (the (environ a)) of
           [] \<Rightarrow> Inl IndexError
         | w # ws \<Rightarrow> (case py_int int_max_str_digits (last (w # ws)) of None \<Rightarrow> Inl ValueError | Some n \<Rightarrow> Inr n))
      else Inr (cpu a))"

definition mem_limit :: "args \<Rightarrow> int" where
  "mem_limit a = (if truthy_int (mem a) then the (mem a) else 6144 * cpu a)"

definition jobname :: "fh \<Rightarrow> string" where
  "jobname ofh = (let b = basename (fh_name ofh) in take (length b - length ''.sbatch'') b)"

definition array_param :: "args \<Rightarrow> int \<Rightarrow> string" where
  "array_param a task_count =
     (''0-'' @ str_int (task_count - 1)) @
     (if truthy_int (max_running_task a) then ''%'' @ str_int (the (max_running_task a)) else [])"

definition array_line :: "args \<Rightarrow> int \<Rightarrow> string" where
  "array_line a task_count =
     ''#SBATCH -a '' @ ljust 17 (array_param a task_count) @
     ''   # array of tasks and max number to run at once''"

definition mem_line :: "args \<Rightarrow> string" where
  "mem_line a =
     ''#SBATCH --mem '' @ ljust 15 (str_int (mem_limit a)) @
     ''  # memory pool per task (not per core)''"

definition write_header :: "fh \<Rightarrow> args \<Rightarrow> int \<Rightarrow> py_exc option \<times> fh" where
  \<open>write_header ofh a task_count =
     (case cpu_count a of
        Inl e \<Rightarrow> (Some e, ofh)
      | Inr cc \<Rightarrow>
         (let h1 = P [''#!/bin/bash'', ''#''] ofh;
              h2 = P [array_line a task_count] h1;
              h3 = P [''#SBATCH -n 1                   # 1 task per node (fixed for all msub jobs)''] h2;
              h4 = P [''#SBATCH -c '' @ ljust 15 (str_int cc) @ ''     # number of cores per task''] h3;
              h5 = P [mem_line a] h4;
              h6 = P [''#SBATCH -o '' @ stdoutdir a @ ''/'' @ jobname ofh @ ''.%A.%a.out     # STDOUT''] h5;
              h7 = P [''#SBATCH -e '' @ stdoutdir a @ ''/'' @ jobname ofh @ ''.%A.%a.err     # STDERR''] h6
          in case (if truthy_str (hold a)
                   then (case munge_hold_arg (the (hold a)) of
                           Inl e \<Rightarrow> Inl e
                         | Inr hold_arg \<Rightarrow>
                             Inr (P [''#SBATCH -d '' @ hold_arg @ ''  # hold off waiting for jobs''] h7))
                   else Inr h7) of
               Inl e \<Rightarrow> (Some e, h7)
             | Inr h8 \<Rightarrow>
                (let h9 = (if noemail a
                           then P [''#SBATCH --mail-type=NONE       # no email''] h8
                           else P [''#SBATCH --mail-type=END,FAIL   # notifications for job done & fail''] h8);
                     h10 = P ['''', ''set -euo pipefail'',
                              ''IFS=$'' @ [CHR 0x27, CHR 0x5C] @ ''n'' @ [CHR 0x5C] @ ''t'' @ [CHR 0x27],
                              ''''] h9;
                     h11 = (if truthy_str (begin_cmd a) then P [the (begin_cmd a), ''''] h10 else h10);
                     h12 = P [''TASK=${TASK:-unset}''] h11;
                     h13 = P [''case ${SLURM_ARRAY_TASK_ID:-$TASK} in''] h12
                 in (None, h13))))\<close>

definition write_footer :: "fh \<Rightarrow> args \<Rightarrow> fh" where
  \<open>write_footer ofh a =
     (let f1 = print_to ''*) echo "Unexpected SLURM_ARRAY_TASK_ID=${SLURM_ARRAY_TASK_ID:-$TASK}"'' ofh;
          f2 = print_to ''esac'' f1;
          f3 = print_to '''' f2
      in if truthy_str (final_cmd a) then print_to (the (final_cmd a)) f3 else f3)\<close>

text \<open>The payload \<open>"{}) {}\n;;".format(task_number, cmd)\<close> of \<open>write_command\<close>.\<close>

definition task_branch :: "int \<Rightarrow> string \<Rightarrow> string" where
  "task_branch task_number cmd = str_int task_number @ '') '' @ cmd @ [CHR 0x0A] @ '';;''"

definition write_command :: "fh \<Rightarrow> args \<Rightarrow> string \<Rightarrow> int \<Rightarrow> fh" where
  "write_command ofh a cmd task_number = print_to (task_branch task_number cmd) ofh"

text \<open>The loop \<open>for i, c in enumerate(command_list): write_command(ofh, args, c, i)\<close>.\<close>

definition write_commands :: "fh \<Rightarrow> args \<Rightarrow> string list \<Rightarrow> fh" where
  "write_commands ofh a command_list =
     foldl (\<lambda>h (i, c). write_command h a c (int i)) ofh (List.enumerate 0 command_list)"

text \<open>The body of the \<open>with\<close> block of \<open>main\<close>: header, one branch per command, footer.\<close>

definition write_script :: "fh \<Rightarrow> args \<Rightarrow> string list \<Rightarrow> py_exc option \<times> fh" where
  "write_script ofh a command_list =
     (case write_header ofh a (int (length command_list)) of
        (Some e, h) \<Rightarrow> (Some e, h)
      | (None, h) \<Rightarrow> (None, write_footer (write_commands h a command_list) a))"

section \<open>The environment of a run\<close>

text \<open>
  What the program reads from outside and never changes: the lines of standard input, the
  lines of each readable file (\<open>None\<close>: \<open>open\<close> fails), the paths at which creating a file
  fails for a reason other than the file being there, the answer of \<open>which sbatch_wait.sh\<close>,
  the directories of \<open>abspath(argv[0])\<close> and \<open>realpath(argv[0])\<close>, the executable regular
  files, and the paths at which \<open>makedirs\<close> and \<open>execlp\<close> fail. Logging to standard error is
  not modelled.
\<close>

record env =
  stdin_lines :: "string list"
  read_file :: "string \<Rightarrow> string list option"
  create_denied :: "string \<Rightarrow> bool"
  which_sbatch_wait :: bool
  argv0_abspath_dir :: string
  argv0_realpath_dir :: string
  is_exec_file :: "string \<Rightarrow> bool"
  makedirs_fails :: "string \<Rightarrow> bool"
  execlp_fails :: "string \<Rightarrow> bool"

text \<open>
  What the program changes: the files (path to content), the lines printed on standard
  output, and the directories passed to \<open>os.makedirs\<close>.
\<close>

record world =
  files :: "string \<rightharpoonup> string"
  stdout :: "string list"
  made_dirs :: "string list"

text \<open>How \<open>main\<close> ends.\<close>

datatype outcome =
    Raised py_exc
  | Returned
  | Replaced string "string list"

section \<open>The collision-safe writer \<open>open_sesame\<close>\<close>

text \<open>
  \<open>open(path, 'x')\<close>: exclusive creation. An existing path gives \<open>FileExistsError\<close> and
  leaves the files as they are; otherwise the file is created empty, unless the creation
  fails for another reason.
\<close>

datatype open_result = Opened "string \<rightharpoonup> string" | FileExistsError | OpenFailed py_exc

definition open_x :: "env \<Rightarrow> (string \<rightharpoonup> string) \<Rightarrow> string \<Rightarrow> open_result" where
  "open_x e fs path =
     (if path \<in> dom fs then FileExistsError
      else if create_denied e path then OpenFailed OSError
      else Opened (fs(path \<mapsto> [])))"

text \<open>The name tried after \<open>_counter\<close> conflicts.\<close>

definition next_name :: "string \<Rightarrow> nat \<Rightarrow> string" where
  "next_name filename counter =
     (if CHR ''.'' \<in> set (basename filename)
      then join ''.'' (butlast (split_on (CHR ''.'') filename) @
                       [str_int (int counter)] @
                       [last (split_on (CHR ''.'') filename)])
      else filename @ ''.'' @ str_int (int counter))"

text \<open>The name of the attempt number \<open>k\<close>, counting from zero: first the desired name.\<close>

definition candidate :: "string \<Rightarrow> nat \<Rightarrow> string" where
  "candidate filename k = (if k = 0 then filename else next_name filename k)"

text \<open>
  The \<open>while True\<close> loop of \<open>__init__\<close> with its two variables. It need not terminate:
  \<open>None\<close> is the run that retries for ever.
\<close>

partial_function (option) open_loop ::
  "env \<Rightarrow> (string \<rightharpoonup> string) \<Rightarrow> string \<Rightarrow> string \<Rightarrow> nat \<Rightarrow> (py_exc + string \<times> (string \<rightharpoonup> string)) option" where
  "open_loop e fs filename cur_filename counter =
     (case open_x e fs cur_filename of
        Opened fs' \<Rightarrow> Some (Inr (cur_filename, fs'))
      | FileExistsError \<Rightarrow> open_loop e fs filename (next_name filename (counter + 1)) (counter + 1)
      | OpenFailed x \<Rightarrow> Some (Inl x))"

definition open_sesame ::
  "env \<Rightarrow> (string \<rightharpoonup> string) \<Rightarrow> string \<Rightarrow> (py_exc + string \<times> (string \<rightharpoonup> string)) option" where
  "open_sesame e fs filename = open_loop e fs filename filename 0"

section \<open>Locating the wrapper\<close>

text \<open>
  The lookup order of \<open>find_sbatch_wait\<close>: the search path (the exit status of \<open>which\<close>),
  then the directory of \<open>abspath(argv[0])\<close>, then the directory of \<open>realpath(argv[0])\<close>.
  \<open>is_exec_file\<close> is \<open>os.path.isfile(sw) and os.access(sw, os.X_OK)\<close>.
\<close>

definition find_sbatch_wait :: "env \<Rightarrow> py_exc + string" where
  "find_sbatch_wait e =
     (if which_sbatch_wait e then Inr ''sbatch_wait.sh''
      else (let sw = argv0_abspath_dir e @ ''/sbatch_wait.sh'' in
            if is_exec_file e sw then Inr sw
            else (let sw = argv0_realpath_dir e @ ''/sbatch_wait.sh'' in
                  if is_exec_file e sw then Inr sw
                  else Inl FileNotFoundError)))"

section \<open>The program\<close>

text \<open>The choice of the input and of the job name at the start of \<open>main\<close>.\<close>

definition tidy_job_name :: "string \<Rightarrow> string" where
  "tidy_job_name job_name =
     (if job_name = '''' \<or> startswith job_name ''.'' then ''msub'' @ job_name else job_name)"

definition select_input :: "env \<Rightarrow> args \<Rightarrow> py_exc + string list \<times> string" where
  "select_input e a =
     (let i = or_str (iinput a) (input_pos a) in
      if the (or_str i (Some ''-'')) = ''-'' then
        Inr (stdin_lines e, the (or_str (job_name_arg a) (Some ''msub_stdin'')))
      else
        (case read_file e (the i) of
           None \<Rightarrow> Inl OSError
         | Some ls \<Rightarrow>
            (let job_name = the (or_str (job_name_arg a) (Some (basename (the i)))) in
             Inr (ls, if endswith job_name ''.sh''
                      then take (length job_name - 3) job_name else job_name))))"

text \<open>The job flags and the end of \<open>main\<close>: preview, or create the directory and submit.\<close>

definition job_flags :: "args \<Rightarrow> string list" where
  "job_flags a =
     [''-p'', queue a] @ [''--nice='' @ str_int (priority a)] @
     (if sync a then [''--wait''] else [])"

text \<open>The submitter: \<open>sbatch\<close>, or the wrapper when \<open>--hard_sync\<close> is given.\<close>

definition resolve_sbatch :: "env \<Rightarrow> args \<Rightarrow> py_exc + string" where
  "resolve_sbatch e a = (if hard_sync a then find_sbatch_wait e else Inr ''sbatch'')"

definition launch :: "env \<Rightarrow> args \<Rightarrow> string \<Rightarrow> world \<Rightarrow> outcome \<times> world" where
  "launch e a script_file w =
     (case resolve_sbatch e a of
        Inl x \<Rightarrow> (Raised x, w)
      | Inr sbatch \<Rightarrow>
         (if nosubmit a then
            (Returned,
             w\<lparr>stdout := stdout w @
                [join '' '' ([''mkdir -p'', stdoutdir a, '';'', sbatch] @ job_flags a @ [script_file])]\<rparr>)
          else if makedirs_fails e (stdoutdir a) then (Raised OSError, w)
          else
            (let w' = w\<lparr>made_dirs := made_dirs w @ [stdoutdir a]\<rparr> in
             if execlp_fails e sbatch then (Raised OSError, w')
             else (Replaced sbatch ([sbatch] @ job_flags a @ [script_file]), w'))))"

definition main :: "env \<Rightarrow> args \<Rightarrow> world \<Rightarrow> (outcome \<times> world) option" where
  "main e a w =
     (if truthy_str (iinput a) \<and> truthy_str (input_pos a) then Some (Raised (SystemExit 1), w)
      else
        (case select_input e a of
           Inl x \<Rightarrow> Some (Raised x, w)
         | Inr (input_file, job_name0) \<Rightarrow>
            (let job_name = tidy_job_name job_name0 in
             case read_commands [] input_file of
               Inl x \<Rightarrow> Some (Raised x, w)
             | Inr command_list \<Rightarrow>
                (if command_list = [] then Some (Raised (SystemExit 1), w)
                 else
                   (case open_sesame e (files w) (job_name @ ''.sbatch'') of
                      None \<Rightarrow> None
                    | Some (Inl x) \<Rightarrow> Some (Raised x, w)
                    | Some (Inr (script_file, fs')) \<Rightarrow>
                       (case write_script \<lparr>fh_name = script_file, printed = []\<rparr> a command_list of
                          (Some x, ofh) \<Rightarrow>
                             Some (Raised x, w\<lparr>files := fs'(script_file \<mapsto> contents ofh)\<rparr>)
                        | (None, ofh) \<Rightarrow>
                             Some (launch e a script_file
                                     (w\<lparr>files := fs'(script_file \<mapsto> contents ofh)\<rparr>))))))))"

section \<open>Reading the generated script\<close>

text \<open>
  The argument values when no option is given: the defaults of \<open>parse_args\<close>.
\<close>

definition default_args :: args where
  "default_args =
     \<lparr>begin_cmd = None, cpu = 1, mem = None, environ = None, final_cmd = None, hold = None,
      nosubmit = False, max_running_task = None, iinput = None, input_pos = None,
      job_name_arg = None, noemail = False, sync = False, hard_sync = False, priority = 50,
      queue = ''global'', stdoutdir = ''slurm_output'', quiet = False\<rparr>"

text \<open>
  An environment for examples: the given lines on standard input, no readable file, no
  failing system call, no wrapper installed; and the world with no file at all.
\<close>

definition plain_env :: "string list \<Rightarrow> env" where
  "plain_env ls =
     \<lparr>stdin_lines = ls, read_file = (\<lambda>p. None), create_denied = (\<lambda>p. False),
      which_sbatch_wait = False, argv0_abspath_dir = ''/usr/local/bin'',
      argv0_realpath_dir = ''/usr/local/bin'', is_exec_file = (\<lambda>p. False),
      makedirs_fails = (\<lambda>p. False), execlp_fails = (\<lambda>p. False)\<rparr>"

definition empty_world :: world where
  "empty_world = \<lparr>files = Map.empty, stdout = [], made_dirs = []\<rparr>"

text \<open>
  The pattern of a clause of the shell's \<open>case\<close>: the text before the first closing
  parenthesis. The clauses of the default pattern: the printed payloads from the one
  starting with \<open>*)\<close> up to \<open>esac\<close>. \<open>str_in sub s\<close> is the substring test \<open>sub in s\<close>.
\<close>

definition branch_label :: "string \<Rightarrow> string" where
  "branch_label b = takeWhile (\<lambda>c. c \<noteq> CHR '')'') b"

definition default_branch :: "string list \<Rightarrow> string list" where
  "default_branch ls =
     takeWhile (\<lambda>l. l \<noteq> ''esac'') (dropWhile (\<lambda>l. \<not> startswith l ''*)'') ls)"

fun str_in :: "string \<Rightarrow> string \<Rightarrow> bool" where
  "str_in sub [] = (sub = [])"
| "str_in sub (x # xs) = (startswith (x # xs) sub \<or> str_in sub xs)"

section \<open>Properties of command ingestion\<close>

lemma read_commands_sentinel:
  "strip l = ''.'' \<Longrightarrow> read_commands acc (pre @ l # post) = read_commands acc pre"
proof (induction pre arbitrary: acc)
  case Nil
  then show ?case by (simp add: is_directive_def startswith_def)
next
  case (Cons x xs)
  then show ?case by (simp add: Let_def)
qed

lemma read_commands_no_directive:
  "\<forall>x\<in>set ls. \<not> is_directive (strip x) \<Longrightarrow>
   read_commands acc ls =
     Inr (acc @ filter (\<lambda>s. s \<noteq> [] \<and> \<not> startswith s ''#'')
                  (map strip (takeWhile (\<lambda>x. strip x \<noteq> ''.'') ls)))"
proof (induction ls arbitrary: acc)
  case Nil
  then show ?case by simp
next
  case (Cons x xs)
  then show ?case by (simp add: Let_def startswith_def)
qed

lemma read_commands_directive:
  "is_directive (strip l) \<Longrightarrow> \<forall>x\<in>set pre. strip x \<noteq> ''.'' \<Longrightarrow>
   read_commands acc (pre @ l # post) = Inl (SystemExit 1)"
proof (induction pre arbitrary: acc)
  case Nil
  then show ?case by simp
next
  case (Cons x xs)
  then show ?case by (simp add: Let_def)
qed

lemma read_commands_subset:
  "read_commands acc ls = Inr cmds \<Longrightarrow> set cmds \<subseteq> set acc \<union> strip ` set ls"
proof (induction ls arbitrary: acc)
  case Nil
  then show ?case by auto
next
  case (Cons x xs)
  show ?case
  proof (cases "is_directive (strip x) \<or> strip x = ''.''")
    case True
    with Cons.prems show ?thesis by (auto simp: Let_def split: if_splits)
  next
    case False
    show ?thesis
    proof (cases "strip x = [] \<or> startswith (strip x) ''#''")
      case True
      with False Cons.prems have "read_commands acc xs = Inr cmds" by (simp add: Let_def)
      from Cons.IH [OF this] show ?thesis by auto
    next
      case skip: False
      with False Cons.prems have "read_commands (acc @ [strip x]) xs = Inr cmds"
        by (simp add: Let_def)
      from Cons.IH [OF this] show ?thesis by auto
    qed
  qed
qed

text \<open>
  C8. A line that is a single dot once stripped ends the reading: the task list of the
  whole input is the task list of the lines before that line, whatever follows it, and
  every task comes from a line before it.
\<close>

theorem sentinel_truncates_ingestion:
  "strip l = ''.'' \<Longrightarrow>
   read_commands [] (pre @ l # post) = read_commands [] pre \<and>
   (\<forall>cmds. read_commands [] (pre @ l # post) = Inr cmds \<longrightarrow> set cmds \<subseteq> strip ` set pre)"
proof -
  assume l: "strip l = ''.''"
  have eq: "read_commands [] (pre @ l # post) = read_commands [] pre"
    by (rule read_commands_sentinel [OF l])
  have "set cmds \<subseteq> strip ` set pre" if "read_commands [] pre = Inr cmds" for cmds
    using read_commands_subset [OF that] by simp
  with eq show ?thesis by simp
qed

theorem sentinel_truncates_ingestion_witness:
  "strip (''.'' @ [CHR 0xA0, CHR 0x0A]) = ''.'' \<and>
   read_commands [] [''echo a\<newline>'', ''.'' @ [CHR 0xA0, CHR 0x0A], ''echo b\<newline>''] = Inr [''echo a''] \<and>
   read_commands [] [''echo a\<newline>''] = Inr [''echo a'']"
proof -
  have h: "strip (''.'' @ [CHR 0xA0, CHR 0x0A]) = ''.''" by (simp add: strip_def is_space_def)
  have r: "read_commands [] [''echo a\<newline>''] = Inr [''echo a'']"
    by (simp add: strip_def is_space_def is_directive_def startswith_def)
  show ?thesis
    using h r sentinel_truncates_ingestion
      [OF h, of "[''echo a\<newline>'']" "[''echo b\<newline>'']"]
    by simp
qed

text \<open>
  C10. When no line before the sentinel is a scheduler directive, reading succeeds and
  returns the commands before the sentinel; the lines after the sentinel play no part,
  directive or not.
\<close>

theorem sentinel_before_directive_succeeds:
  "strip l = ''.'' \<Longrightarrow> \<forall>x\<in>set pre. \<not> is_directive (strip x) \<Longrightarrow>
   read_commands [] (pre @ l # post) =
     Inr (filter (\<lambda>s. s \<noteq> [] \<and> \<not> startswith s ''#'')
            (map strip (takeWhile (\<lambda>x. strip x \<noteq> ''.'') pre)))"
  using read_commands_sentinel [of l "[]" pre post] read_commands_no_directive [of pre "[]"]
  by simp

theorem sentinel_before_directive_succeeds_witness:
  "strip (''.'' @ [CHR 0xA0, CHR 0x0A]) = ''.'' \<and> \<not> is_directive (strip ''echo a\<newline>'') \<and>
   is_directive (strip ([CHR 0xA0] @ ''#SBATCH -n 1\<newline>'')) \<and>
   read_commands []
     [''echo a\<newline>'', ''.'' @ [CHR 0xA0, CHR 0x0A], [CHR 0xA0] @ ''#SBATCH -n 1\<newline>''] =
     Inr [''echo a'']"
proof -
  have h: "strip (''.'' @ [CHR 0xA0, CHR 0x0A]) = ''.''" by (simp add: strip_def is_space_def)
  have d: "\<forall>x\<in>set [''echo a\<newline>'']. \<not> is_directive (strip x)"
    by (simp add: strip_def is_space_def is_directive_def startswith_def)
  have p: "is_directive (strip ([CHR 0xA0] @ ''#SBATCH -n 1\<newline>''))"
    by (simp add: strip_def is_space_def is_directive_def startswith_def)
  show ?thesis
    using h d p sentinel_before_directive_succeeds
      [OF h d, of "[[CHR 0xA0] @ ''#SBATCH -n 1\<newline>'']"]
    by (simp add: strip_def is_space_def startswith_def)
qed

section \<open>Properties of the decimal rendering\<close>

lemma digit_char_cases:
  "d < 10 \<Longrightarrow> d = 0 \<or> d = 1 \<or> d = 2 \<or> d = 3 \<or> d = 4 \<or> d = 5 \<or> d = 6 \<or> d = 7 \<or> d = 8 \<or> d = (9::nat)"
  by arith

lemma digit_char_is_digit: "d < 10 \<Longrightarrow> is_digit (digit_char d)"
  using digit_char_cases [of d] by (auto simp: digit_char_def is_digit_def)

lemma digit_val_digit_char: "d < 10 \<Longrightarrow> digit_val (digit_char d) = d"
  using digit_char_cases [of d] by (auto simp: digit_char_def digit_val_def)

lemma str_nat_digits: "c \<in> set (str_nat n) \<Longrightarrow> is_digit c"
proof (induction n rule: str_nat.induct)
  case (1 n)
  show ?case
  proof (cases "n < 10")
    case True
    with "1.prems" show ?thesis by (simp add: str_nat.simps [of n] digit_char_is_digit)
  next
    case False
    with "1.prems" "1.IH" show ?thesis
      by (auto simp: str_nat.simps [of n] digit_char_is_digit)
  qed
qed

lemma str_nat_not_Nil: "str_nat n \<noteq> []"
  by (subst str_nat.simps) simp

lemma digits_value_str_nat: "foldl (\<lambda>a c. 10 * a + digit_val c) 0 (str_nat n) = n"
proof (induction n rule: str_nat.induct)
  case (1 n)
  show ?case
  proof (cases "n < 10")
    case True
    then have "str_nat n = [digit_char n]" by (subst str_nat.simps) simp
    with True show ?thesis by (simp add: digit_val_digit_char)
  next
    case False
    then have unf: "str_nat n = str_nat (n div 10) @ [digit_char (n mod 10)]"
      by (subst str_nat.simps) simp
    have ih: "foldl (\<lambda>a c. 10 * a + digit_val c) 0 (str_nat (n div 10)) = n div 10"
      using "1.IH" False by simp
    have "foldl (\<lambda>a c. 10 * a + digit_val c) 0 (str_nat n) =
          10 * (n div 10) + digit_val (digit_char (n mod 10))"
      by (simp only: unf foldl_append foldl.simps ih)
    also have "\<dots> = 10 * (n div 10) + n mod 10"
      by (simp add: digit_val_digit_char)
    also have "\<dots> = n" by simp
    finally show ?thesis .
  qed
qed

lemma str_nat_inject: "str_nat m = str_nat n \<longleftrightarrow> m = n"
proof
  assume "str_nat m = str_nat n"
  then have "foldl (\<lambda>a c. 10 * a + digit_val c) 0 (str_nat m) =
             foldl (\<lambda>a c. 10 * a + digit_val c) 0 (str_nat n)" by (rule arg_cong)
  then show "m = n" by (simp only: digits_value_str_nat)
qed simp

lemma parse_digits_all_digits:
  "s \<noteq> [] \<Longrightarrow> \<forall>c\<in>set s. is_digit c \<Longrightarrow>
   parse_digits acc s = Some (foldl (\<lambda>a c. 10 * a + digit_val c) acc s)"
proof (induction acc s rule: parse_digits.induct)
  case (1 acc)
  then show ?case by simp
next
  case (2 acc c)
  then show ?case by simp
next
  case (3 acc c d cs)
  have "d \<noteq> CHR ''_''" using "3.prems" by (auto simp: is_digit_def)
  with 3 show ?case by simp
qed

lemma is_digit_not_space: "is_digit c \<Longrightarrow> \<not> is_space c"
  by (auto simp: is_digit_def is_space_def)

lemma strip_no_space: "\<forall>c\<in>set s. \<not> is_space c \<Longrightarrow> strip s = s"
proof -
  assume a: "\<forall>c\<in>set s. \<not> is_space c"
  then have 1: "dropWhile is_space s = s" by (cases s) auto
  have 2: "dropWhile is_space (rev s) = rev s"
  proof (cases "rev s")
    case Nil
    then show ?thesis by simp
  next
    case (Cons x xs)
    then have "x \<in> set s" by (metis list.set_intros(1) set_rev)
    with a Cons show ?thesis by simp
  qed
  show ?thesis by (simp add: strip_def 1 2)
qed

lemma str_nat_hd_digit: "is_digit (hd (str_nat n))"
  using str_nat_digits [of "hd (str_nat n)" n] str_nat_not_Nil [of n] by simp

lemma is_digit_not_int_space: "is_digit c \<Longrightarrow> \<not> is_int_space c"
  by (auto simp: is_digit_def is_int_space_def)

lemma int_strip_no_space: "\<forall>c\<in>set s. \<not> is_int_space c \<Longrightarrow> int_strip s = s"
proof -
  assume a: "\<forall>c\<in>set s. \<not> is_int_space c"
  then have 1: "dropWhile is_int_space s = s" by (cases s) auto
  have 2: "dropWhile is_int_space (rev s) = rev s"
  proof (cases "rev s")
    case Nil
    then show ?thesis by simp
  next
    case (Cons x xs)
    then have "x \<in> set s" by (metis list.set_intros(1) set_rev)
    with a Cons show ?thesis by simp
  qed
  show ?thesis by (simp add: int_strip_def 1 2)
qed

lemma length_int_strip: "length (int_strip s) \<le> length s"
proof -
  have "length (dropWhile is_int_space (rev (dropWhile is_int_space s))) \<le>
        length (rev (dropWhile is_int_space s))"
    by (rule length_dropWhile_le)
  also have "\<dots> \<le> length s" by (simp add: length_dropWhile_le)
  finally show ?thesis by (simp add: int_strip_def)
qed

lemma too_many_digits_0: "\<not> too_many_digits 0 s"
  by (simp add: too_many_digits_def Let_def)

lemma too_many_digits_bound: "length s \<le> lim \<Longrightarrow> \<not> too_many_digits lim s"
proof -
  assume "length s \<le> lim"
  moreover have "length (filter is_digit (int_strip s)) \<le> length (int_strip s)"
    by (rule length_filter_le)
  ultimately have "length (filter is_digit (int_strip s)) \<le> lim"
    using length_int_strip [of s] by linarith
  then show ?thesis by (simp add: too_many_digits_def Let_def)
qed

lemma py_int_limit:
  "py_int lim s = (if too_many_digits lim s then None else py_int 0 s)"
  by (simp add: py_int_def Let_def too_many_digits_0)

lemma py_int_0_str_int: "py_int 0 (str_int i) = Some i"
proof (cases "i < 0")
  case True
  let ?b = "str_nat (nat (- i))"
  have ns: "\<forall>c\<in>set (CHR ''-'' # ?b). \<not> is_int_space c"
    using str_nat_digits is_digit_not_int_space by (auto simp: is_int_space_def)
  have "parse_digits 0 ?b = Some (nat (- i))"
    using parse_digits_all_digits [of ?b 0] str_nat_digits str_nat_not_Nil digits_value_str_nat
    by auto
  with True show ?thesis
    using int_strip_no_space [OF ns] str_nat_not_Nil [of "nat (- i)"]
    by (simp add: py_int_def str_int_def Let_def too_many_digits_0)
next
  case False
  let ?b = "str_nat (nat i)"
  have ns: "\<forall>c\<in>set ?b. \<not> is_int_space c"
    using str_nat_digits is_digit_not_int_space by auto
  have hd: "hd ?b \<noteq> CHR ''-'' \<and> hd ?b \<noteq> CHR ''+''"
    using str_nat_hd_digit [of "nat i"] by (auto simp: is_digit_def)
  have "parse_digits 0 ?b = Some (nat i)"
    using parse_digits_all_digits [of ?b 0] str_nat_digits str_nat_not_Nil digits_value_str_nat
    by auto
  with False hd show ?thesis
    using int_strip_no_space [OF ns] str_nat_not_Nil [of "nat i"]
    by (simp add: py_int_def str_int_def Let_def too_many_digits_0)
qed

lemma py_int_str_int:
  "\<not> too_many_digits lim (str_int i) \<Longrightarrow> py_int lim (str_int i) = Some i"
  by (subst py_int_limit) (simp add: py_int_0_str_int)

lemma str_int_inject: "str_int i = str_int j \<longleftrightarrow> i = j"
proof
  assume "str_int i = str_int j"
  then have "py_int 0 (str_int i) = py_int 0 (str_int j)" by (rule arg_cong)
  then show "i = j" by (simp only: py_int_0_str_int option.inject)
qed simp

lemma str_int_chars: "c \<in> set (str_int i) \<Longrightarrow> is_digit c \<or> c = CHR ''-''"
  using str_nat_digits by (auto simp: str_int_def split: if_splits)

lemma str_int_nonneg_digits: "0 \<le> i \<Longrightarrow> c \<in> set (str_int i) \<Longrightarrow> is_digit c"
  using str_nat_digits by (auto simp: str_int_def split: if_splits)

section \<open>Properties of the dependency translation\<close>

lemma split_on_not_Nil: "split_on c s \<noteq> []"
  by (induction s) (auto simp: Let_def)

lemma join_split_on: "join [c] (split_on c s) = s"
proof (induction s)
  case Nil
  then show ?case by simp
next
  case (Cons x xs)
  obtain w ws where r: "split_on c xs = w # ws"
    using split_on_not_Nil [of c xs] by (cases "split_on c xs") auto
  show ?case
  proof (cases "x = c")
    case True
    with Cons r show ?thesis by simp
  next
    case False
    with Cons r show ?thesis by (cases ws) (auto simp: Let_def)
  qed
qed

lemma split_on_no_sep: "x \<in> set (split_on c s) \<Longrightarrow> c \<notin> set x"
proof (induction s arbitrary: x)
  case Nil
  then show ?case by simp
next
  case (Cons y ys)
  obtain w ws where r: "split_on c ys = w # ws"
    using split_on_not_Nil [of c ys] by (cases "split_on c ys") auto
  show ?case
  proof (cases "y = c")
    case True
    with Cons show ?thesis by auto
  next
    case False
    with Cons.prems r have "x = y # w \<or> x \<in> set ws" by (auto simp: Let_def)
    with Cons.IH r False show ?thesis by auto
  qed
qed

lemma split_on_no_sep_id: "c \<notin> set x \<Longrightarrow> split_on c x = [x]"
  by (induction x) (auto simp: Let_def)

lemma split_on_append_sep:
  "c \<notin> set x \<Longrightarrow> split_on c (x @ c # rest) = x # split_on c rest"
  by (induction x) (auto simp: Let_def)

lemma split_on_join:
  "xs \<noteq> [] \<Longrightarrow> \<forall>x\<in>set xs. c \<notin> set x \<Longrightarrow> split_on c (join [c] xs) = xs"
proof (induction "[c]" xs rule: join.induct)
  case 1
  then show ?case by simp
next
  case (2 x)
  then show ?case by (simp add: split_on_no_sep_id)
next
  case (3 x y ys)
  then show ?case by (simp add: split_on_append_sep)
qed

lemma int_strs_eq:
  "int_strs js =
     (if \<exists>j\<in>set js. py_int 0 j = None \<or> too_many_digits int_max_str_digits j
      then Inl ValueError
      else Inr (map (\<lambda>j. str_int (the (py_int 0 j))) js))"
  by (induction js)
    (auto simp: py_int_limit [of int_max_str_digits] split: option.splits sum.splits)

lemma int_strs_str_int:
  "\<forall>i\<in>set ids. length (str_int i) \<le> int_max_str_digits \<Longrightarrow>
   int_strs (map str_int ids) = Inr (map str_int ids)"
  by (induction ids) (auto simp: py_int_str_int too_many_digits_bound)

lemma str_int_no_comma: "CHR '','' \<notin> set (str_int i)"
  using str_int_chars [of "CHR '',''" i] by (auto simp: is_digit_def)

lemma str_int_no_colon: "CHR '':'' \<notin> set (str_int i)"
  using str_int_chars [of "CHR '':''" i] by (auto simp: is_digit_def)

lemma set_join: "set (join sep xs) \<subseteq> set sep \<union> \<Union> (set ` set xs)"
  by (induction sep xs rule: join.induct) auto

text \<open>
  C5 (amended). A hold value with a colon is returned as it is. A hold value without colon
  is cut at its commas (joining the pieces with commas gives the value back); it raises
  \<open>ValueError\<close> exactly when some piece is not an integer for \<open>int\<close>, or has more digits
  than the interpreter's limit; otherwise the result is \<open>afterok:\<close> followed by the
  decimal renderings of the pieces joined with colons. No other exception is raised. In
  particular a comma-separated list of job numbers \<open>ids\<close>, each within the limit, becomes
  \<open>afterok:id1:id2:...\<close>.
\<close>

theorem munge_hold_arg_translation:
  "(CHR '':'' \<in> set h \<longrightarrow> munge_hold_arg h = Inr h) \<and>
   (CHR '':'' \<notin> set h \<longrightarrow>
      join '','' (split_on (CHR '','') h) = h \<and>
      (munge_hold_arg h = Inl ValueError \<longleftrightarrow>
         (\<exists>j\<in>set (split_on (CHR '','') h).
            py_int 0 j = None \<or> too_many_digits int_max_str_digits j)) \<and>
      ((\<forall>j\<in>set (split_on (CHR '','') h).
          py_int 0 j \<noteq> None \<and> \<not> too_many_digits int_max_str_digits j) \<longrightarrow>
         munge_hold_arg h =
           Inr (''afterok:'' @
                join '':'' (map (\<lambda>j. str_int (the (py_int 0 j))) (split_on (CHR '','') h))))) \<and>
   (\<forall>x. munge_hold_arg h = Inl x \<longrightarrow> x = ValueError \<and> CHR '':'' \<notin> set h) \<and>
   (ids \<noteq> [] \<and> (\<forall>i\<in>set ids. length (str_int i) \<le> int_max_str_digits) \<longrightarrow>
      munge_hold_arg (join '','' (map str_int ids)) = Inr (''afterok:'' @ join '':'' (map str_int ids)))"
proof (intro conjI impI allI)
  assume "CHR '':'' \<in> set h"
  then show "munge_hold_arg h = Inr h" by (simp add: munge_hold_arg_def)
next
  show "join '','' (split_on (CHR '','') h) = h" by (rule join_split_on)
next
  assume "CHR '':'' \<notin> set h"
  then show "munge_hold_arg h = Inl ValueError \<longleftrightarrow>
         (\<exists>j\<in>set (split_on (CHR '','') h).
            py_int 0 j = None \<or> too_many_digits int_max_str_digits j)"
    by (simp add: munge_hold_arg_def int_strs_eq)
next
  assume "CHR '':'' \<notin> set h"
    "\<forall>j\<in>set (split_on (CHR '','') h).
          py_int 0 j \<noteq> None \<and> \<not> too_many_digits int_max_str_digits j"
  then show "munge_hold_arg h =
           Inr (''afterok:'' @
                join '':'' (map (\<lambda>j. str_int (the (py_int 0 j))) (split_on (CHR '','') h)))"
    by (auto simp: munge_hold_arg_def int_strs_eq)
next
  fix x assume "munge_hold_arg h = Inl x"
  then show "x = ValueError" by (auto simp: munge_hold_arg_def int_strs_eq split: if_splits)
next
  fix x assume "munge_hold_arg h = Inl x"
  then show "CHR '':'' \<notin> set h" by (auto simp: munge_hold_arg_def split: if_splits)
next
  assume hyp: "ids \<noteq> [] \<and> (\<forall>i\<in>set ids. length (str_int i) \<le> int_max_str_digits)"
  let ?s = "join '','' (map str_int ids)"
  have "set ?s \<subseteq> set '','' \<union> \<Union> (set ` set (map str_int ids))" by (rule set_join)
  then have nc: "CHR '':'' \<notin> set ?s" using str_int_no_colon by auto
  have sp: "split_on (CHR '','') ?s = map str_int ids"
    using split_on_join [of "map str_int ids" "CHR '',''"] hyp str_int_no_comma by auto
  have "int_strs (map str_int ids) = Inr (map str_int ids)"
    using hyp by (intro int_strs_str_int) blast
  then show "munge_hold_arg ?s = Inr (''afterok:'' @ join '':'' (map str_int ids))"
    using nc by (simp add: munge_hold_arg_def sp)
qed

theorem munge_hold_arg_translation_witness:
  "munge_hold_arg ''12,34'' = Inr ''afterok:12:34'' \<and>
   munge_hold_arg ''aftercorr:99'' = Inr ''aftercorr:99'' \<and>
   munge_hold_arg ''12,x'' = Inl ValueError \<and>
   munge_hold_arg '' 7,+08'' = Inr ''afterok:7:8'' \<and>
   munge_hold_arg ([CHR 0x1C] @ ''5'') = Inl ValueError \<and>
   munge_hold_arg ([CHR 0xA0] @ ''5'') = Inr ''afterok:5''"
proof -
  note ev = py_int_def int_strip_def is_int_space_def too_many_digits_def int_max_str_digits_def
    is_digit_def digit_val_def str_int_def str_nat.simps digit_char_def
  have a: "munge_hold_arg ''12,34'' = Inr ''afterok:12:34''"
    using munge_hold_arg_translation [of "''12,34''" "[]"] by (simp add: ev)
  have b: "munge_hold_arg ''aftercorr:99'' = Inr ''aftercorr:99''"
    using munge_hold_arg_translation [of "''aftercorr:99''" "[]"] by simp
  have c: "munge_hold_arg ''12,x'' = Inl ValueError"
    using munge_hold_arg_translation [of "''12,x''" "[]"] by (simp add: ev)
  have d: "munge_hold_arg '' 7,+08'' = Inr ''afterok:7:8''"
    using munge_hold_arg_translation [of "'' 7,+08''" "[12, 34]"] by (simp add: ev)
  have e: "munge_hold_arg ([CHR 0x1C] @ ''5'') = Inl ValueError"
    using munge_hold_arg_translation [of "[CHR 0x1C] @ ''5''" "[]"] by (simp add: ev)
  have f: "munge_hold_arg ([CHR 0xA0] @ ''5'') = Inr ''afterok:5''"
    using munge_hold_arg_translation [of "[CHR 0xA0] @ ''5''" "[]"] by (simp add: ev)
  from a b c d e f show ?thesis by simp
qed

text \<open>
  A hold value of 4301 digits: read without the limit it is an integer, and the
  translation raises \<open>ValueError\<close>.
\<close>

theorem munge_hold_arg_digit_limit_counterexample:
  "py_int 0 (replicate 4301 (CHR ''1'')) \<noteq> None \<and>
   munge_hold_arg (replicate 4301 (CHR ''1'')) = Inl ValueError"
proof -
  define x where "x = replicate 4301 (CHR ''1'')"
  have len: "length x = 4301" by (simp add: x_def)
  have mem: "\<forall>c\<in>set x. c = CHR ''1''" by (simp add: x_def)
  then have dig: "\<forall>c\<in>set x. is_digit c" by (simp add: is_digit_def)
  have ne: "x \<noteq> []" using len by auto
  have nsp: "\<forall>c\<in>set x. \<not> is_int_space c" using dig is_digit_not_int_space by blast
  have st: "int_strip x = x" by (rule int_strip_no_space [OF nsp])
  have hd1: "hd x = CHR ''1''" using mem ne by (cases x) auto
  have pd: "parse_digits 0 x \<noteq> None" using parse_digits_all_digits [OF ne dig, of 0] by simp
  have p0: "py_int 0 x \<noteq> None"
    using pd ne hd1 by (auto simp: py_int_def st Let_def too_many_digits_0)
  have "filter is_digit x = x" using dig by simp
  then have tm: "too_many_digits int_max_str_digits x"
    by (simp add: too_many_digits_def st len int_max_str_digits_def)
  have nc: "CHR '':'' \<notin> set x" "CHR '','' \<notin> set x" using mem by auto
  have sp: "split_on (CHR '','') x = [x]" by (rule split_on_no_sep_id [OF nc(2)])
  have "munge_hold_arg x = Inl ValueError"
    using nc(1) tm by (simp add: munge_hold_arg_def sp py_int_limit [of int_max_str_digits])
  with p0 show ?thesis unfolding x_def by blast
qed

section \<open>Properties of the generated script\<close>

lemma printed_P: "printed (P xs h) = printed h @ xs"
  unfolding P_def by (induction xs arbitrary: h) (simp_all add: print_to_def)

lemma write_header_printed:
  assumes "write_header ofh a n = (None, h)"
  shows "\<exists>cc rest. cpu_count a = Inr cc \<and>
           printed h = printed ofh @
             [''#!/bin/bash'', ''#'', array_line a n,
              ''#SBATCH -n 1                   # 1 task per node (fixed for all msub jobs)'',
              ''#SBATCH -c '' @ ljust 15 (str_int cc) @ ''     # number of cores per task'',
              mem_line a] @ rest @ [''case ${SLURM_ARRAY_TASK_ID:-$TASK} in'']"
proof (cases "cpu_count a")
  case (Inl e)
  with assms show ?thesis by (simp add: write_header_def)
next
  case (Inr cc)
  show ?thesis
  proof (cases "truthy_str (hold a)")
    case False
    with assms Inr show ?thesis
      by (auto simp: write_header_def Let_def printed_P)
  next
    case True
    show ?thesis
    proof (cases "munge_hold_arg (the (hold a))")
      case (Inl e)
      with assms Inr True show ?thesis by (simp add: write_header_def Let_def)
    next
      case hr: (Inr hold_arg)
      with assms Inr True show ?thesis
        by (auto simp: write_header_def Let_def printed_P)
    qed
  qed
qed

lemma printed_write_commands_aux:
  "printed (foldl (\<lambda>h (i, c). write_command h a c (int i)) h ps) =
   printed h @ map (\<lambda>(i, c). task_branch (int i) c) ps"
  by (induction ps arbitrary: h) (auto simp: write_command_def print_to_def)

lemma map_enumerate_index:
  "map (\<lambda>(i, c). f i c) (List.enumerate 0 cl) = map (\<lambda>i. f i (cl ! i)) [0..<length cl]"
  by (rule nth_equalityI) (simp_all add: nth_enumerate_eq)

lemma printed_write_commands:
  "printed (write_commands h a cl) =
   printed h @ map (\<lambda>i. task_branch (int i) (cl ! i)) [0..<length cl]"
  unfolding write_commands_def printed_write_commands_aux
  by (simp only: map_enumerate_index [of "\<lambda>i c. task_branch (int i) c" cl])

lemma printed_write_footer:
  \<open>printed (write_footer ofh a) =
     printed ofh @
     [''*) echo "Unexpected SLURM_ARRAY_TASK_ID=${SLURM_ARRAY_TASK_ID:-$TASK}"'', ''esac'', ''''] @
     (if truthy_str (final_cmd a) then [the (final_cmd a)] else [])\<close>
  by (simp add: write_footer_def print_to_def Let_def)

lemma branch_label_task_branch: "0 \<le> i \<Longrightarrow> branch_label (task_branch i c) = str_int i"
proof -
  assume "0 \<le> i"
  then have "\<forall>x\<in>set (str_int i). x \<noteq> CHR '')''"
    using str_int_nonneg_digits [of i] by (auto simp: is_digit_def)
  then show ?thesis
    by (simp add: branch_label_def task_branch_def takeWhile_append2)
qed

lemmas eval_str = str_int_def str_nat.simps digit_char_def ljust_def
lemmas eval_header = write_header_def cpu_count_def truthy_str_def truthy_int_def P_def print_to_def
  array_line_def array_param_def mem_line_def mem_limit_def jobname_def basename_def
  default_args_def Let_def

text \<open>
  C1. When the script is written without exception, what is printed after the header
  (which ends with the line opening the \<open>case\<close>) is one payload per command, in the order
  of the commands, then the default clause and \<open>esac\<close>. The payload of command \<open>i\<close> is
  the decimal rendering of \<open>i\<close>, a closing parenthesis, a space, the command as it is, a
  line feed and \<open>;;\<close>. Its pattern is the rendering of \<open>i\<close>, and the pattern of clause
  \<open>j\<close> is the rendering of \<open>i\<close> only for \<open>j = i\<close>: a selector equal to \<open>i\<close> matches
  the clause of command \<open>i\<close> and no other task clause.
\<close>

theorem dispatch_branches:
  \<open>write_script ofh a cl = (None, h) \<Longrightarrow>
   (\<exists>hdr. write_header ofh a (int (length cl)) = (None, hdr) \<and>
      last (printed hdr) = ''case ${SLURM_ARRAY_TASK_ID:-$TASK} in'' \<and>
      printed h =
        printed hdr @ map (\<lambda>i. task_branch (int i) (cl ! i)) [0..<length cl] @
        [''*) echo "Unexpected SLURM_ARRAY_TASK_ID=${SLURM_ARRAY_TASK_ID:-$TASK}"'', ''esac'', ''''] @
        (if truthy_str (final_cmd a) then [the (final_cmd a)] else [])) \<and>
   (\<forall>i<length cl.
      task_branch (int i) (cl ! i) = str_int (int i) @ '') '' @ cl ! i @ [CHR 0x0A] @ '';;'' \<and>
      branch_label (task_branch (int i) (cl ! i)) = str_int (int i)) \<and>
   (\<forall>i<length cl. \<forall>j<length cl.
      branch_label (task_branch (int j) (cl ! j)) = str_int (int i) \<longleftrightarrow> j = i)\<close>
proof (intro conjI)
  assume ws: "write_script ofh a cl = (None, h)"
  obtain r hdr where wh: "write_header ofh a (int (length cl)) = (r, hdr)"
    by (cases "write_header ofh a (int (length cl))")
  with ws have r: "r = None" and h: "h = write_footer (write_commands hdr a cl) a"
    by (auto simp: write_script_def split: option.splits)
  from wh r have ok: "write_header ofh a (int (length cl)) = (None, hdr)" by simp
  from write_header_printed [OF ok] have l: "last (printed hdr) = ''case ${SLURM_ARRAY_TASK_ID:-$TASK} in''"
    by auto
  show \<open>\<exists>hdr. write_header ofh a (int (length cl)) = (None, hdr) \<and>
      last (printed hdr) = ''case ${SLURM_ARRAY_TASK_ID:-$TASK} in'' \<and>
      printed h =
        printed hdr @ map (\<lambda>i. task_branch (int i) (cl ! i)) [0..<length cl] @
        [''*) echo "Unexpected SLURM_ARRAY_TASK_ID=${SLURM_ARRAY_TASK_ID:-$TASK}"'', ''esac'', ''''] @
        (if truthy_str (final_cmd a) then [the (final_cmd a)] else [])\<close>
    using ok l by (intro exI [of _ hdr]) (simp add: h printed_write_footer printed_write_commands)
next
  show "\<forall>i<length cl.
      task_branch (int i) (cl ! i) = str_int (int i) @ '') '' @ cl ! i @ [CHR 0x0A] @ '';;'' \<and>
      branch_label (task_branch (int i) (cl ! i)) = str_int (int i)"
    by (simp add: branch_label_task_branch) (simp add: task_branch_def)
next
  show "\<forall>i<length cl. \<forall>j<length cl.
      branch_label (task_branch (int j) (cl ! j)) = str_int (int i) \<longleftrightarrow> j = i"
    by (simp add: branch_label_task_branch str_int_inject)
qed

theorem dispatch_branches_witness:
  \<open>fst (write_script \<lparr>fh_name = ''job.sbatch'', printed = []\<rparr> default_args [''echo a'', ''echo b'']) = None \<and>
   drop 15 (printed (snd (write_script \<lparr>fh_name = ''job.sbatch'', printed = []\<rparr> default_args
                            [''echo a'', ''echo b'']))) =
     [''0) echo a'' @ [CHR 0x0A] @ '';;'', ''1) echo b'' @ [CHR 0x0A] @ '';;'',
      ''*) echo "Unexpected SLURM_ARRAY_TASK_ID=${SLURM_ARRAY_TASK_ID:-$TASK}"'', ''esac'', ''''] \<and>
   branch_label (''1) echo b'' @ [CHR 0x0A] @ '';;'') = ''1''\<close>
proof -
  let ?r = "write_script \<lparr>fh_name = ''job.sbatch'', printed = []\<rparr> default_args [''echo a'', ''echo b'']"
  have f: "fst ?r = None"
    by (simp add: write_script_def eval_header eval_str)
  then have e: "?r = (None, snd ?r)" by (metis prod.collapse)
  have hl: "length (printed (snd (write_header \<lparr>fh_name = ''job.sbatch'', printed = []\<rparr> default_args 2))) = 15"
    by (simp add: eval_header eval_str)
  have tb: "task_branch 0 ''echo a'' = ''0) echo a'' @ [CHR 0x0A] @ '';;''"
       "task_branch 1 ''echo b'' = ''1) echo b'' @ [CHR 0x0A] @ '';;''"
    by (simp_all add: task_branch_def eval_str)
  from dispatch_branches [OF e] obtain hdr where
    h: "write_header \<lparr>fh_name = ''job.sbatch'', printed = []\<rparr> default_args (int (length [''echo a'', ''echo b''])) = (None, hdr)"
    and p: \<open>printed (snd ?r) = printed hdr @ map (\<lambda>i. task_branch (int i) ([''echo a'', ''echo b''] ! i)) [0..<length [''echo a'', ''echo b'']] @
        [''*) echo "Unexpected SLURM_ARRAY_TASK_ID=${SLURM_ARRAY_TASK_ID:-$TASK}"'', ''esac'', ''''] @
        (if truthy_str (final_cmd default_args) then [the (final_cmd default_args)] else [])\<close>
    and bl: "\<forall>i<length [''echo a'', ''echo b'']. branch_label (task_branch (int i) ([''echo a'', ''echo b''] ! i)) = str_int (int i)"
    by blast
  from h hl have l15: "length (printed hdr) = 15" by simp
  have m: "map (\<lambda>i. task_branch (int i) ([''echo a'', ''echo b''] ! i)) [0..<length [''echo a'', ''echo b'']] =
           [task_branch 0 ''echo a'', task_branch 1 ''echo b'']"
    by (simp add: upt_conv_Cons)
  have d: \<open>drop 15 (printed (snd ?r)) = [''0) echo a'' @ [CHR 0x0A] @ '';;'', ''1) echo b'' @ [CHR 0x0A] @ '';;'',
      ''*) echo "Unexpected SLURM_ARRAY_TASK_ID=${SLURM_ARRAY_TASK_ID:-$TASK}"'', ''esac'', '''']\<close>
    unfolding p m tb using l15 by (simp add: default_args_def truthy_str_def)
  from bl have "1 < length [''echo a'', ''echo b''] \<longrightarrow>
      branch_label (task_branch (int 1) ([''echo a'', ''echo b''] ! 1)) = str_int (int 1)"
    by (rule spec)
  then have "branch_label (task_branch (int 1) ([''echo a'', ''echo b''] ! 1)) = str_int (int 1)"
    by simp
  then have b: "branch_label (''1) echo b'' @ [CHR 0x0A] @ '';;'') = ''1''"
    using tb by (simp add: eval_str)
  from f d b show ?thesis by blast
qed

section \<open>Properties of the footer, the memory directive and the array directive\<close>

lemma replicate_num: "replicate (numeral k) x = x # replicate (pred_numeral k) x"
  by (simp add: numeral_eq_Suc)

lemmas eval_fmt = eval_str replicate_num

lemma endswith_append: "endswith (xs @ ys) ys"
  by (simp add: endswith_def)

text \<open>
  C2 (amended). Whatever was printed before, the footer prints the default clause, which is
  the single command echoing the selector \<open>${SLURM_ARRAY_TASK_ID:-$TASK}\<close>, then \<open>esac\<close>
  and an empty line, then the final command when one is configured. The default clause
  holds nothing but that \<open>echo\<close>.
\<close>

theorem footer_default_branch:
  \<open>drop (length (printed ofh)) (printed (write_footer ofh a)) =
     [''*) echo "Unexpected SLURM_ARRAY_TASK_ID=${SLURM_ARRAY_TASK_ID:-$TASK}"'', ''esac'', ''''] @
     (if truthy_str (final_cmd a) then [the (final_cmd a)] else []) \<and>
   default_branch (drop (length (printed ofh)) (printed (write_footer ofh a))) =
     [''*) echo "Unexpected SLURM_ARRAY_TASK_ID=${SLURM_ARRAY_TASK_ID:-$TASK}"''] \<and>
   str_in ''${SLURM_ARRAY_TASK_ID:-$TASK}''
     (hd (default_branch (drop (length (printed ofh)) (printed (write_footer ofh a)))))\<close>
  by (simp add: printed_write_footer default_branch_def startswith_def)

text \<open>
  At the default arguments the default clause is the \<open>echo\<close> alone and the text of the
  footer has no \<open>exit\<close> in it: the script goes on after \<open>esac\<close> with the status of
  \<open>echo\<close>.
\<close>

theorem footer_default_exit_counterexample:
  \<open>default_branch (printed (write_footer \<lparr>fh_name = ''job.sbatch'', printed = []\<rparr> default_args)) =
     [''*) echo "Unexpected SLURM_ARRAY_TASK_ID=${SLURM_ARRAY_TASK_ID:-$TASK}"''] \<and>
   \<not> str_in ''exit'' (contents (write_footer \<lparr>fh_name = ''job.sbatch'', printed = []\<rparr> default_args))\<close>
  by (simp add: printed_write_footer default_branch_def startswith_def contents_def
      default_args_def truthy_str_def)

text \<open>
  C3 (amended). In a header written without exception, the line after the cores directive
  is the memory directive. Its value is the explicit memory value when that is not zero.
  When no memory value is given, or the value 0, and the legacy environment string does
  not replace the core count, the value is 6144 times the core count of the cores
  directive; with four cores and no memory value it is 24576.
\<close>

theorem memory_directive:
  "write_header ofh a n = (None, h) \<Longrightarrow>
   \<exists>cc v. cpu_count a = Inr cc \<and>
     printed h ! (length (printed ofh) + 4) =
       ''#SBATCH -c '' @ ljust 15 (str_int cc) @ ''     # number of cores per task'' \<and>
     printed h ! (length (printed ofh) + 5) =
       ''#SBATCH --mem '' @ ljust 15 (str_int v) @ ''  # memory pool per task (not per core)'' \<and>
     (\<forall>m. mem a = Some m \<and> m \<noteq> 0 \<longrightarrow> v = m) \<and>
     ((mem a = None \<or> mem a = Some 0) \<and> \<not> (cpu a = 1 \<and> truthy_str (environ a)) \<longrightarrow> v = 6144 * cc) \<and>
     (mem a = None \<and> cpu a = 4 \<longrightarrow> v = 24576)"
proof -
  assume wh: "write_header ofh a n = (None, h)"
  from write_header_printed [OF wh] obtain cc rest where
    cc: "cpu_count a = Inr cc" and
    p: "printed h = printed ofh @
             [''#!/bin/bash'', ''#'', array_line a n,
              ''#SBATCH -n 1                   # 1 task per node (fixed for all msub jobs)'',
              ''#SBATCH -c '' @ ljust 15 (str_int cc) @ ''     # number of cores per task'',
              mem_line a] @ rest @ [''case ${SLURM_ARRAY_TASK_ID:-$TASK} in'']"
    by blast
  have l4: "printed h ! (length (printed ofh) + 4) =
       ''#SBATCH -c '' @ ljust 15 (str_int cc) @ ''     # number of cores per task''"
    unfolding p by (simp add: nth_append)
  have l5: "printed h ! (length (printed ofh) + 5) =
       ''#SBATCH --mem '' @ ljust 15 (str_int (mem_limit a)) @ ''  # memory pool per task (not per core)''"
    unfolding p by (simp add: nth_append mem_line_def)
  have v1: "\<forall>m. mem a = Some m \<and> m \<noteq> 0 \<longrightarrow> mem_limit a = m"
    by (simp add: mem_limit_def truthy_int_def)
  have v2: "(mem a = None \<or> mem a = Some 0) \<and> \<not> (cpu a = 1 \<and> truthy_str (environ a)) \<longrightarrow>
            mem_limit a = 6144 * cc"
    using cc by (auto simp: mem_limit_def truthy_int_def cpu_count_def)
  have v3: "mem a = None \<and> cpu a = 4 \<longrightarrow> mem_limit a = 24576"
    by (simp add: mem_limit_def truthy_int_def)
  from cc l4 l5 v1 v2 v3 show ?thesis by blast
qed

theorem memory_directive_witness:
  "fst (write_header \<lparr>fh_name = ''job.sbatch'', printed = []\<rparr> (default_args\<lparr>cpu := 4\<rparr>) 3) = None \<and>
   printed (snd (write_header \<lparr>fh_name = ''job.sbatch'', printed = []\<rparr> (default_args\<lparr>cpu := 4\<rparr>) 3)) ! 5 =
     ''#SBATCH --mem 24576            # memory pool per task (not per core)''"
proof -
  let ?a = "default_args\<lparr>cpu := 4\<rparr>"
  let ?r = "write_header \<lparr>fh_name = ''job.sbatch'', printed = []\<rparr> ?a 3"
  have f: "fst ?r = None" by (simp add: eval_header eval_fmt)
  then have e: "?r = (None, snd ?r)" by (metis prod.collapse)
  from memory_directive [OF e] obtain v where
    l: "printed (snd ?r) ! (length (printed \<lparr>fh_name = ''job.sbatch'', printed = []\<rparr>) + 5) =
       ''#SBATCH --mem '' @ ljust 15 (str_int v) @ ''  # memory pool per task (not per core)''"
    and v: "mem ?a = None \<and> cpu ?a = 4 \<longrightarrow> v = 24576"
    by blast
  from v have "v = 24576" by (simp add: default_args_def)
  with l have "printed (snd ?r) ! 5 =
     ''#SBATCH --mem 24576            # memory pool per task (not per core)''"
    by (simp add: eval_fmt)
  with f show ?thesis by blast
qed

text \<open>
  An explicit memory value of 0 with four cores: the directive carries 24576, not 0.
\<close>

theorem memory_explicit_zero_counterexample:
  "mem (default_args\<lparr>cpu := 4, mem := Some 0\<rparr>) = Some 0 \<and>
   printed (snd (write_header \<lparr>fh_name = ''job.sbatch'', printed = []\<rparr>
                   (default_args\<lparr>cpu := 4, mem := Some 0\<rparr>) 3)) ! 5 =
     ''#SBATCH --mem 24576            # memory pool per task (not per core)''"
  by (simp add: eval_header eval_fmt)

text \<open>
  C4 (amended). For a task count \<open>n\<close> of at least one, the array parameter is \<open>0-\<close>
  followed by the decimal rendering of \<open>n - 1\<close>, a plain number; for \<open>n = 1\<close> it starts
  with \<open>0-0\<close>. With a limit \<open>L\<close> other than zero it ends with \<open>%L\<close>; with no limit, or
  the limit 0, it has no percent sign. It is the value of the third line of the header.
\<close>

theorem array_directive:
  "1 \<le> n \<Longrightarrow>
   (max_running_task a = None \<or> max_running_task a = Some 0 \<longrightarrow>
      array_param a n = ''0-'' @ str_int (n - 1) \<and> CHR ''%'' \<notin> set (array_param a n)) \<and>
   (\<forall>L. max_running_task a = Some L \<and> L \<noteq> 0 \<longrightarrow>
      array_param a n = ''0-'' @ str_int (n - 1) @ ''%'' @ str_int L \<and>
      endswith (array_param a n) (''%'' @ str_int L)) \<and>
   (\<forall>c\<in>set (str_int (n - 1)). is_digit c) \<and> py_int 0 (str_int (n - 1)) = Some (n - 1) \<and>
   (n = 1 \<longrightarrow> startswith (array_param a n) ''0-0'' \<and>
      (max_running_task a = None \<or> max_running_task a = Some 0 \<longrightarrow> array_param a n = ''0-0'')) \<and>
   (\<forall>h. write_header ofh a n = (None, h) \<longrightarrow>
      printed h ! (length (printed ofh) + 2) =
        ''#SBATCH -a '' @ ljust 17 (array_param a n) @
        ''   # array of tasks and max number to run at once'')"
proof (intro conjI allI impI ballI)
  assume n: "1 \<le> n"
  assume "max_running_task a = None \<or> max_running_task a = Some 0"
  then have nl: "\<not> truthy_int (max_running_task a)" by (auto simp: truthy_int_def)
  then show "array_param a n = ''0-'' @ str_int (n - 1)" by (simp add: array_param_def)
  have "\<forall>c\<in>set (str_int (n - 1)). c \<noteq> CHR ''%''"
    using str_int_nonneg_digits [of "n - 1"] n by (auto simp: is_digit_def)
  with nl show "CHR ''%'' \<notin> set (array_param a n)" by (auto simp: array_param_def)
next
  fix L assume "max_running_task a = Some L \<and> L \<noteq> 0"
  then have e: "array_param a n = ''0-'' @ str_int (n - 1) @ ''%'' @ str_int L"
    by (simp add: array_param_def truthy_int_def)
  then show "array_param a n = ''0-'' @ str_int (n - 1) @ ''%'' @ str_int L" .
  have "array_param a n = (''0-'' @ str_int (n - 1)) @ (''%'' @ str_int L)" using e by simp
  then show "endswith (array_param a n) (''%'' @ str_int L)"
    by (simp only: endswith_append)
next
  fix c assume "1 \<le> n" "c \<in> set (str_int (n - 1))"
  then show "is_digit c" using str_int_nonneg_digits [of "n - 1" c] by simp
next
  show "py_int 0 (str_int (n - 1)) = Some (n - 1)" by (rule py_int_0_str_int)
next
  assume "n = 1"
  then show "startswith (array_param a n) ''0-0''"
    by (simp add: array_param_def startswith_def eval_str)
next
  assume "n = 1" "max_running_task a = None \<or> max_running_task a = Some 0"
  then show "array_param a n = ''0-0''"
    by (auto simp: array_param_def truthy_int_def eval_str)
next
  fix h assume wh: "write_header ofh a n = (None, h)"
  from write_header_printed [OF wh] obtain cc rest where
    p: "printed h = printed ofh @
             [''#!/bin/bash'', ''#'', array_line a n,
              ''#SBATCH -n 1                   # 1 task per node (fixed for all msub jobs)'',
              ''#SBATCH -c '' @ ljust 15 (str_int cc) @ ''     # number of cores per task'',
              mem_line a] @ rest @ [''case ${SLURM_ARRAY_TASK_ID:-$TASK} in'']"
    by blast
  show "printed h ! (length (printed ofh) + 2) =
        ''#SBATCH -a '' @ ljust 17 (array_param a n) @
        ''   # array of tasks and max number to run at once''"
    unfolding p by (simp add: nth_append array_line_def)
qed

theorem array_directive_witness:
  "(1::int) \<le> 1 \<and> array_param default_args 1 = ''0-0'' \<and>
   (1::int) \<le> 3 \<and> array_param (default_args\<lparr>max_running_task := Some 5\<rparr>) 3 = ''0-2%5'' \<and>
   printed (snd (write_header \<lparr>fh_name = ''job.sbatch'', printed = []\<rparr> default_args 1)) ! 2 =
     ''#SBATCH -a 0-0                 # array of tasks and max number to run at once''"
proof -
  have h1: "(1::int) \<le> 1" and h3: "(1::int) \<le> 3" by simp_all
  let ?r = "write_header \<lparr>fh_name = ''job.sbatch'', printed = []\<rparr> default_args 1"
  have f: "fst ?r = None" by (simp add: eval_header eval_fmt)
  then have e: "?r = (None, snd ?r)" by (metis prod.collapse)
  have a: "array_param default_args 1 = ''0-0''"
    using array_directive [OF h1, of default_args "\<lparr>fh_name = ''job.sbatch'', printed = []\<rparr>"]
    by (simp add: default_args_def eval_str)
  have b: "array_param (default_args\<lparr>max_running_task := Some 5\<rparr>) 3 = ''0-2%5''"
    using array_directive [OF h3, of "default_args\<lparr>max_running_task := Some 5\<rparr>"
        "\<lparr>fh_name = ''job.sbatch'', printed = []\<rparr>"]
    by (simp add: default_args_def eval_str)
  have "\<forall>h. ?r = (None, h) \<longrightarrow>
      printed h ! (length (printed \<lparr>fh_name = ''job.sbatch'', printed = []\<rparr>) + 2) =
        ''#SBATCH -a '' @ ljust 17 (array_param default_args 1) @
        ''   # array of tasks and max number to run at once''"
    using array_directive [OF h1, of default_args "\<lparr>fh_name = ''job.sbatch'', printed = []\<rparr>"]
    by blast
  with e have "printed (snd ?r) ! (length (printed \<lparr>fh_name = ''job.sbatch'', printed = []\<rparr>) + 2) =
        ''#SBATCH -a '' @ ljust 17 (array_param default_args 1) @
        ''   # array of tasks and max number to run at once''"
    by blast
  then have c: "printed (snd ?r) ! 2 =
     ''#SBATCH -a 0-0                 # array of tasks and max number to run at once''"
    by (simp add: a ljust_def replicate_num numeral_2_eq_2)
  from h1 h3 a b c show ?thesis by blast
qed

text \<open>
  A limit of 0 with three tasks: the array parameter is \<open>0-2\<close> and does not end
  with \<open>%0\<close>.
\<close>

theorem array_limit_zero_counterexample:
  "max_running_task (default_args\<lparr>max_running_task := Some 0\<rparr>) = Some 0 \<and>
   array_param (default_args\<lparr>max_running_task := Some 0\<rparr>) 3 = ''0-2'' \<and>
   \<not> endswith (array_param (default_args\<lparr>max_running_task := Some 0\<rparr>) 3) ''%0''"
  by (simp add: array_param_def truthy_int_def default_args_def endswith_def eval_str)

section \<open>Properties of the collision-safe writer\<close>

lemma open_loop_first_free:
  "c \<le> k \<Longrightarrow> (\<forall>j. c \<le> j \<and> j < k \<longrightarrow> candidate filename j \<in> dom fs) \<Longrightarrow>
   candidate filename k \<notin> dom fs \<Longrightarrow>
   open_loop e fs filename (candidate filename c) c =
     Some (if create_denied e (candidate filename k) then Inl OSError
           else Inr (candidate filename k, fs(candidate filename k \<mapsto> [])))"
proof (induction "k - c" arbitrary: c)
  case 0
  then have "c = k" by simp
  with 0 show ?case
    by (subst open_loop.simps) (simp add: open_x_def)
next
  case (Suc d)
  then have lt: "c < k" by simp
  with Suc.prems have ex: "candidate filename c \<in> dom fs" by simp
  have nx: "next_name filename (c + 1) = candidate filename (c + 1)"
    by (simp add: candidate_def)
  have "open_loop e fs filename (candidate filename (c + 1)) (c + 1) =
     Some (if create_denied e (candidate filename k) then Inl OSError
           else Inr (candidate filename k, fs(candidate filename k \<mapsto> [])))"
    using Suc.hyps(2) Suc.prems lt by (intro Suc.hyps(1)) auto
  with ex nx show ?case
    by (subst open_loop.simps) (simp add: open_x_def)
qed

lemma open_loop_all_exist:
  assumes "open_loop e fs filename cur c = Some y"
  shows "\<not> (cur \<in> dom fs \<and> (\<forall>j>c. candidate filename j \<in> dom fs))"
proof (rule open_loop.raw_induct
    [where P = "\<lambda>e fs filename cur c y.
                  \<not> (cur \<in> dom fs \<and> (\<forall>j>c. candidate filename j \<in> dom fs))",
     OF _ assms])
  fix lp :: "env \<Rightarrow> (string \<rightharpoonup> string) \<Rightarrow> string \<Rightarrow> string \<Rightarrow> nat
             \<Rightarrow> (py_exc + string \<times> (string \<rightharpoonup> string)) option"
  fix e fs filename cur c y
  assume IH: "\<And>e fs filename cur c y. lp e fs filename cur c = Some y \<Longrightarrow>
                \<not> (cur \<in> dom fs \<and> (\<forall>j>c. candidate filename j \<in> dom fs))"
  assume st: "(case open_x e fs cur of
                 Opened fs' \<Rightarrow> Some (Inr (cur, fs'))
               | FileExistsError \<Rightarrow> lp e fs filename (next_name filename (c + 1)) (c + 1)
               | OpenFailed x \<Rightarrow> Some (Inl x)) = Some y"
  show "\<not> (cur \<in> dom fs \<and> (\<forall>j>c. candidate filename j \<in> dom fs))"
  proof
    assume a: "cur \<in> dom fs \<and> (\<forall>j>c. candidate filename j \<in> dom fs)"
    then have "open_x e fs cur = FileExistsError" by (simp add: open_x_def)
    with st have r: "lp e fs filename (next_name filename (c + 1)) (c + 1) = Some y" by simp
    have "candidate filename (c + 1) \<in> dom fs" using a by simp
    then have n: "next_name filename (c + 1) \<in> dom fs" by (simp add: candidate_def)
    have "\<forall>j>c + 1. candidate filename j \<in> dom fs" using a by simp
    with IH [OF r] n show False by blast
  qed
qed

lemma open_sesame_first_free:
  "(\<forall>j<k. candidate filename j \<in> dom fs) \<Longrightarrow> candidate filename k \<notin> dom fs \<Longrightarrow>
   open_sesame e fs filename =
     Some (if create_denied e (candidate filename k) then Inl OSError
           else Inr (candidate filename k, fs(candidate filename k \<mapsto> [])))"
  using open_loop_first_free [of 0 k filename fs e]
  by (simp add: open_sesame_def candidate_def)

lemma open_sesame_None_iff:
  "open_sesame e fs filename = None \<longleftrightarrow> (\<forall>k. candidate filename k \<in> dom fs)"
proof
  assume n: "open_sesame e fs filename = None"
  show "\<forall>k. candidate filename k \<in> dom fs"
  proof (rule ccontr)
    assume "\<not> (\<forall>k. candidate filename k \<in> dom fs)"
    then obtain k0 where k0: "candidate filename k0 \<notin> dom fs" by blast
    define k where "k = (LEAST k. candidate filename k \<notin> dom fs)"
    have free: "candidate filename k \<notin> dom fs" unfolding k_def using k0 by (rule LeastI)
    have "\<forall>j<k. candidate filename j \<in> dom fs"
      unfolding k_def using not_less_Least by blast
    from open_sesame_first_free [OF this free] n show False by simp
  qed
next
  assume all: "\<forall>k. candidate filename k \<in> dom fs"
  show "open_sesame e fs filename = None"
  proof (cases "open_sesame e fs filename")
    case None
    then show ?thesis .
  next
    case (Some y)
    then have "open_loop e fs filename filename 0 = Some y" by (simp add: open_sesame_def)
    moreover have "filename \<in> dom fs" using all [rule_format, of 0] by (simp add: candidate_def)
    ultimately have False using open_loop_all_exist [of e fs filename filename 0 y] all by blast
    then show ?thesis ..
  qed
qed

lemma open_sesame_Some:
  assumes "open_sesame e fs filename = Some r"
  shows "\<exists>k. (\<forall>j<k. candidate filename j \<in> dom fs) \<and> candidate filename k \<notin> dom fs \<and>
           r = (if create_denied e (candidate filename k) then Inl OSError
                else Inr (candidate filename k, fs(candidate filename k \<mapsto> [])))"
proof -
  from assms have "\<not> (\<forall>k. candidate filename k \<in> dom fs)"
    using open_sesame_None_iff [of e fs filename] by simp
  then obtain k0 where k0: "candidate filename k0 \<notin> dom fs" by blast
  define k where "k = (LEAST k. candidate filename k \<notin> dom fs)"
  have free: "candidate filename k \<notin> dom fs" unfolding k_def using k0 by (rule LeastI)
  have below: "\<forall>j<k. candidate filename j \<in> dom fs"
    unfolding k_def using not_less_Least by blast
  from open_sesame_first_free [OF below free, of e] assms below free show ?thesis by auto
qed

lemma join_snoc: "xs \<noteq> [] \<Longrightarrow> join sep (xs @ [m]) = join sep xs @ sep @ m"
  by (induction sep xs rule: join.induct) auto

lemma join_snoc2:
  "join sep (xs @ [m, l]) = (if xs = [] then [] else join sep xs @ sep) @ m @ sep @ l"
  using join_snoc [of "xs @ [m]" sep l] join_snoc [of xs sep m] by (cases "xs = []") auto

lemma next_name_inject: "next_name filename i = next_name filename j \<longleftrightarrow> i = j"
proof
  assume eq: "next_name filename i = next_name filename j"
  have "str_int (int i) = str_int (int j)"
  proof (cases "CHR ''.'' \<in> set (basename filename)")
    case True
    with eq show ?thesis by (simp add: next_name_def join_snoc2)
  next
    case False
    with eq show ?thesis by (simp add: next_name_def)
  qed
  then show "i = j" by (simp add: str_int_inject)
qed simp

lemma finite_has_free_candidate:
  assumes "finite (dom fs)"
  shows "\<exists>k. candidate filename k \<notin> dom fs"
proof (rule ccontr)
  assume "\<not> (\<exists>k. candidate filename k \<notin> dom fs)"
  then have all: "\<forall>k. candidate filename k \<in> dom fs" by blast
  have "\<forall>k. next_name filename (Suc k) \<in> dom fs"
  proof
    fix k
    from all have "candidate filename (Suc k) \<in> dom fs" by (rule spec)
    then show "next_name filename (Suc k) \<in> dom fs" by (simp add: candidate_def)
  qed
  then have sub: "range (\<lambda>k. next_name filename (Suc k)) \<subseteq> dom fs" by auto
  have "inj (\<lambda>k. next_name filename (Suc k))"
    by (rule injI) (simp add: next_name_inject)
  then have "infinite (range (\<lambda>k. next_name filename (Suc k)))"
    by (simp add: finite_image_iff)
  with sub assms show False using finite_subset by blast
qed

lemma split_on_append_last:
  "c \<notin> set ext \<Longrightarrow> split_on c (stem @ c # ext) = split_on c stem @ [ext]"
proof (induction stem)
  case Nil
  then show ?case by (simp add: split_on_no_sep_id)
next
  case (Cons x xs)
  then show ?case using split_on_not_Nil [of c xs] by (auto simp: Let_def)
qed

lemma basename_has_dot:
  "CHR ''/'' \<notin> set ext \<Longrightarrow> CHR ''.'' \<in> set (basename (stem @ ''.'' @ ext))"
proof -
  assume "CHR ''/'' \<notin> set ext"
  then have "takeWhile (\<lambda>c. c \<noteq> CHR ''/'') (rev ext @ CHR ''.'' # rev stem) =
             rev ext @ takeWhile (\<lambda>c. c \<noteq> CHR ''/'') (CHR ''.'' # rev stem)"
    by (intro takeWhile_append2) auto
  then show ?thesis by (simp add: basename_def)
qed

lemma next_name_dotted:
  assumes "CHR ''.'' \<notin> set ext" "CHR ''/'' \<notin> set ext"
  shows "next_name (stem @ ''.'' @ ext) k = stem @ ''.'' @ str_int (int k) @ ''.'' @ ext"
proof -
  have sp: "split_on (CHR ''.'') (stem @ CHR ''.'' # ext) = split_on (CHR ''.'') stem @ [ext]"
    by (rule split_on_append_last [OF assms(1)])
  have "join ''.'' (split_on (CHR ''.'') stem @ [str_int (int k), ext]) =
        join ''.'' (split_on (CHR ''.'') stem) @ ''.'' @ str_int (int k) @ ''.'' @ ext"
    by (simp add: join_snoc2 split_on_not_Nil)
  then show ?thesis
    using basename_has_dot [OF assms(2), of stem]
    by (simp add: next_name_def sp join_split_on)
qed

section \<open>Properties of a whole run\<close>

lemma launch_files: "launch e a s w = (out, w') \<Longrightarrow> files w' = files w"
  by (auto simp: launch_def Let_def split: sum.splits if_splits)

lemma launch_nosubmit:
  "nosubmit a \<Longrightarrow> resolve_sbatch e a = Inr sbatch \<Longrightarrow>
   launch e a s w =
     (Returned,
      w\<lparr>stdout := stdout w @
         [join '' '' ([''mkdir -p'', stdoutdir a, '';'', sbatch] @ job_flags a @ [s])]\<rparr>)"
  by (simp add: launch_def)

lemma launch_live:
  "\<not> nosubmit a \<Longrightarrow> resolve_sbatch e a = Inr sbatch \<Longrightarrow>
   \<not> makedirs_fails e (stdoutdir a) \<Longrightarrow> \<not> execlp_fails e sbatch \<Longrightarrow>
   launch e a s w =
     (Replaced sbatch ([sbatch] @ job_flags a @ [s]), w\<lparr>made_dirs := made_dirs w @ [stdoutdir a]\<rparr>)"
  by (simp add: launch_def Let_def)

lemma launch_dry_frame:
  "nosubmit a \<Longrightarrow> launch e a s w = (out, w') \<Longrightarrow>
   made_dirs w' = made_dirs w \<and> (\<forall>p argv. out \<noteq> Replaced p argv)"
  by (auto simp: launch_def split: sum.splits)

lemma launch_Returned:
  "launch e a s w = (Returned, w') \<Longrightarrow>
   nosubmit a \<and> (\<exists>sbatch. resolve_sbatch e a = Inr sbatch \<and>
     w' = w\<lparr>stdout := stdout w @
         [join '' '' ([''mkdir -p'', stdoutdir a, '';'', sbatch] @ job_flags a @ [s])]\<rparr>)"
  by (auto simp: launch_def Let_def split: sum.splits if_splits)

lemma launch_Replaced:
  "launch e a s w = (Replaced p argv, w') \<Longrightarrow>
   \<not> nosubmit a \<and> resolve_sbatch e a = Inr p \<and> argv = [p] @ job_flags a @ [s] \<and>
   w' = w\<lparr>made_dirs := made_dirs w @ [stdoutdir a]\<rparr>"
  by (auto simp: launch_def Let_def split: sum.splits if_splits)

lemma main_cases:
  assumes "main e a w = Some (out, w')"
  shows "(\<exists>x. out = Raised x \<and> w' = w) \<or>
         (\<exists>script body. script \<notin> dom (files w) \<and>
            ((\<exists>x. out = Raised x \<and> w' = w\<lparr>files := (files w)(script \<mapsto> body)\<rparr>) \<or>
             (out, w') = launch e a script (w\<lparr>files := (files w)(script \<mapsto> body)\<rparr>)))"
proof (cases "truthy_str (iinput a) \<and> truthy_str (input_pos a)")
  case True
  with assms show ?thesis by (auto simp: main_def)
next
  case nb: False
  show ?thesis
  proof (cases "select_input e a")
    case (Inl x)
    with assms nb show ?thesis by (auto simp: main_def)
  next
    case (Inr p)
    obtain input_file jn where p: "p = (input_file, jn)" by (cases p)
    show ?thesis
    proof (cases "read_commands [] input_file")
      case (Inl x)
      with assms nb Inr p show ?thesis by (auto simp: main_def)
    next
      case rc: (Inr cl)
      show ?thesis
      proof (cases "cl = []")
        case True
        with assms nb Inr p rc show ?thesis by (auto simp: main_def)
      next
        case ne: False
        let ?f = "tidy_job_name jn @ ''.sbatch''"
        from assms nb Inr p rc ne obtain r where os: "open_sesame e (files w) ?f = Some r"
          by (cases "open_sesame e (files w) ?f") (auto simp: main_def Let_def)
        from open_sesame_Some [OF os] obtain k where
          free: "candidate ?f k \<notin> dom (files w)" and
          r: "r = (if create_denied e (candidate ?f k) then Inl OSError
                   else Inr (candidate ?f k, (files w)(candidate ?f k \<mapsto> [])))"
          by blast
        show ?thesis
        proof (cases "create_denied e (candidate ?f k)")
          case True
          with assms nb Inr p rc ne os r show ?thesis by (auto simp: main_def Let_def)
        next
          case False
          let ?s = "candidate ?f k"
          obtain x ofh where ws: "write_script \<lparr>fh_name = ?s, printed = []\<rparr> a cl = (x, ofh)"
            by (cases "write_script \<lparr>fh_name = ?s, printed = []\<rparr> a cl")
          show ?thesis
          proof (cases x)
            case None
            with assms nb Inr p rc ne os r False ws
            have "(out, w') = launch e a ?s (w\<lparr>files := (files w)(?s \<mapsto> contents ofh)\<rparr>)"
              by (simp add: main_def Let_def)
            with free show ?thesis by blast
          next
            case (Some x')
            with assms nb Inr p rc ne os r False ws
            have "out = Raised x' \<and> w' = w\<lparr>files := (files w)(?s \<mapsto> contents ofh)\<rparr>"
              by (simp add: main_def Let_def)
            with free show ?thesis by blast
          qed
        qed
      qed
    qed
  qed
qed

lemma main_keeps_files:
  assumes "main e a w = Some (out, w')" "p \<in> dom (files w)"
  shows "files w' p = files w p"
proof -
  from main_cases [OF assms(1)] show ?thesis
  proof (elim disjE exE conjE)
    fix x assume "w' = w"
    then show ?thesis by simp
  next
    fix script body x
    assume "script \<notin> dom (files w)" "w' = w\<lparr>files := (files w)(script \<mapsto> body)\<rparr>"
    with assms(2) show ?thesis by auto
  next
    fix script body
    assume s: "script \<notin> dom (files w)"
      and l: "(out, w') = launch e a script (w\<lparr>files := (files w)(script \<mapsto> body)\<rparr>)"
    from launch_files [OF l [symmetric]] have "files w' = (files w)(script \<mapsto> body)" by simp
    with s assms(2) show ?thesis by auto
  qed
qed

lemma main_dry_frame:
  assumes "main e a w = Some (out, w')" "nosubmit a"
  shows "made_dirs w' = made_dirs w \<and> (\<forall>p argv. out \<noteq> Replaced p argv)"
proof -
  from main_cases [OF assms(1)] show ?thesis
  proof (elim disjE exE conjE)
    fix x assume "out = Raised x" "w' = w"
    then show ?thesis by simp
  next
    fix script body x
    assume "out = Raised x" "w' = w\<lparr>files := (files w)(script \<mapsto> body)\<rparr>"
    then show ?thesis by simp
  next
    fix script body
    assume l: "(out, w') = launch e a script (w\<lparr>files := (files w)(script \<mapsto> body)\<rparr>)"
    from launch_dry_frame [OF assms(2) l [symmetric]] show ?thesis by simp
  qed
qed

lemma main_Returned:
  assumes "main e a w = Some (Returned, w')"
  shows "nosubmit a \<and> (\<exists>sbatch script_file. resolve_sbatch e a = Inr sbatch \<and>
           script_file \<in> dom (files w') \<and> script_file \<notin> dom (files w) \<and>
           made_dirs w' = made_dirs w \<and>
           stdout w' = stdout w @
             [join '' '' ([''mkdir -p'', stdoutdir a, '';'', sbatch] @ job_flags a @ [script_file])])"
proof -
  from main_cases [OF assms] obtain script body where
    s: "script \<notin> dom (files w)" and
    l: "(Returned, w') = launch e a script (w\<lparr>files := (files w)(script \<mapsto> body)\<rparr>)"
    by auto
  from launch_Returned [OF l [symmetric]] s show ?thesis by auto
qed

lemma main_Replaced:
  assumes "main e a w = Some (Replaced p argv, w')"
  shows "\<not> nosubmit a \<and> resolve_sbatch e a = Inr p \<and> stdout w' = stdout w \<and>
         made_dirs w' = made_dirs w @ [stdoutdir a] \<and>
         (\<exists>script_file. script_file \<in> dom (files w') \<and> argv = [p] @ job_flags a @ [script_file])"
proof -
  from main_cases [OF assms] obtain script body where
    l: "(Replaced p argv, w') = launch e a script (w\<lparr>files := (files w)(script \<mapsto> body)\<rparr>)"
    by auto
  from launch_Replaced [OF l [symmetric]] show ?thesis by auto
qed

lemma main_directive:
  assumes "select_input e a = Inr (pre @ l # post, jn)" "is_directive (strip l)"
    "\<forall>x\<in>set pre. strip x \<noteq> ''.''"
  shows "main e a w = Some (Raised (SystemExit 1), w)"
  using assms read_commands_directive [OF assms(2,3), of "[]" post]
  by (simp add: main_def)

text \<open>
  C6. \<open>open_sesame\<close> tries the desired name, then the names with counter 1, 2, 3, ...
  When the names before attempt \<open>k\<close> all exist and the name of attempt \<open>k\<close> does not,
  the result is that name, created empty, with every file that existed left as it was; or
  the error of that creation, when it fails for another reason. Every result arises this
  way, the returned name was not there before, and with finitely many files the loop
  returns. For a name \<open>stem.ext\<close> the name with counter \<open>k\<close> is \<open>stem.k.ext\<close>; for a name
  whose base name has no dot it is the name followed by \<open>.k\<close>. A whole run of the program
  leaves the content of every file that existed unchanged.
\<close>

theorem open_sesame_collision_safe:
  "((\<forall>j<k. candidate filename j \<in> dom fs) \<and> candidate filename k \<notin> dom fs \<longrightarrow>
      open_sesame e fs filename =
        Some (if create_denied e (candidate filename k) then Inl OSError
              else Inr (candidate filename k, fs(candidate filename k \<mapsto> [])))) \<and>
   (\<forall>r. open_sesame e fs filename = Some r \<longrightarrow>
      (\<exists>n. (\<forall>j<n. candidate filename j \<in> dom fs) \<and> candidate filename n \<notin> dom fs \<and>
         r = (if create_denied e (candidate filename n) then Inl OSError
              else Inr (candidate filename n, fs(candidate filename n \<mapsto> []))))) \<and>
   (\<forall>nm fs'. open_sesame e fs filename = Some (Inr (nm, fs')) \<longrightarrow>
      nm \<notin> dom fs \<and> (\<forall>p\<in>dom fs. fs' p = fs p)) \<and>
   (finite (dom fs) \<longrightarrow> open_sesame e fs filename \<noteq> None) \<and>
   candidate filename 0 = filename \<and>
   (0 < k \<and> CHR ''.'' \<notin> set (basename filename) \<longrightarrow>
      candidate filename k = filename @ ''.'' @ str_int (int k)) \<and>
   (0 < k \<and> CHR ''.'' \<notin> set ext \<and> CHR ''/'' \<notin> set ext \<longrightarrow>
      candidate (stem @ ''.'' @ ext) k = stem @ ''.'' @ str_int (int k) @ ''.'' @ ext) \<and>
   (\<forall>out w'. main e a w = Some (out, w') \<longrightarrow> (\<forall>p\<in>dom (files w). files w' p = files w p))"
proof (intro conjI)
  show "(\<forall>j<k. candidate filename j \<in> dom fs) \<and> candidate filename k \<notin> dom fs \<longrightarrow>
      open_sesame e fs filename =
        Some (if create_denied e (candidate filename k) then Inl OSError
              else Inr (candidate filename k, fs(candidate filename k \<mapsto> [])))"
    using open_sesame_first_free [of k filename fs e] by blast
next
  show "\<forall>r. open_sesame e fs filename = Some r \<longrightarrow>
      (\<exists>n. (\<forall>j<n. candidate filename j \<in> dom fs) \<and> candidate filename n \<notin> dom fs \<and>
         r = (if create_denied e (candidate filename n) then Inl OSError
              else Inr (candidate filename n, fs(candidate filename n \<mapsto> []))))"
    using open_sesame_Some [of e fs filename] by blast
next
  show "\<forall>nm fs'. open_sesame e fs filename = Some (Inr (nm, fs')) \<longrightarrow>
      nm \<notin> dom fs \<and> (\<forall>p\<in>dom fs. fs' p = fs p)"
  proof (intro allI impI)
    fix nm fs' assume "open_sesame e fs filename = Some (Inr (nm, fs'))"
    from open_sesame_Some [OF this] obtain n where
      "candidate filename n \<notin> dom fs"
      "Inr (nm, fs') = (if create_denied e (candidate filename n) then Inl OSError
              else Inr (candidate filename n, fs(candidate filename n \<mapsto> [])))"
      by blast
    then show "nm \<notin> dom fs \<and> (\<forall>p\<in>dom fs. fs' p = fs p)"
      by (auto split: if_splits)
  qed
next
  show "finite (dom fs) \<longrightarrow> open_sesame e fs filename \<noteq> None"
    using finite_has_free_candidate [of fs filename] open_sesame_None_iff [of e fs filename]
    by blast
next
  show "candidate filename 0 = filename" by (simp add: candidate_def)
next
  show "0 < k \<and> CHR ''.'' \<notin> set (basename filename) \<longrightarrow>
      candidate filename k = filename @ ''.'' @ str_int (int k)"
    by (simp add: candidate_def next_name_def)
next
  show "0 < k \<and> CHR ''.'' \<notin> set ext \<and> CHR ''/'' \<notin> set ext \<longrightarrow>
      candidate (stem @ ''.'' @ ext) k = stem @ ''.'' @ str_int (int k) @ ''.'' @ ext"
    using next_name_dotted [of ext stem k] by (simp add: candidate_def)
next
  show "\<forall>out w'. main e a w = Some (out, w') \<longrightarrow> (\<forall>p\<in>dom (files w). files w' p = files w p)"
    using main_keeps_files [of e a w] by blast
qed

theorem open_sesame_collision_safe_witness:
  "candidate ''job.sbatch'' 0 = ''job.sbatch'' \<and>
   candidate ''job.sbatch'' 1 = ''job.1.sbatch'' \<and>
   candidate ''job.sbatch'' 2 = ''job.2.sbatch'' \<and>
   open_sesame (plain_env []) [''job.sbatch'' \<mapsto> ''first'', ''job.1.sbatch'' \<mapsto> ''second'']
       ''job.sbatch'' =
     Some (Inr (''job.2.sbatch'',
                [''job.sbatch'' \<mapsto> ''first'', ''job.1.sbatch'' \<mapsto> ''second'',
                 ''job.2.sbatch'' \<mapsto> '''']))"
proof -
  let ?fs = "[''job.sbatch'' \<mapsto> ''first'', ''job.1.sbatch'' \<mapsto> ''second'']"
  note inst = open_sesame_collision_safe
    [of 2 "''job.sbatch''" ?fs "plain_env []" "''sbatch''" "''job''" default_args empty_world]
  have c0: "candidate ''job.sbatch'' 0 = ''job.sbatch''" using inst by blast
  have c1: "candidate ''job.sbatch'' 1 = ''job.1.sbatch''"
    using open_sesame_collision_safe
      [of 1 "''job.sbatch''" ?fs "plain_env []" "''sbatch''" "''job''" default_args empty_world]
    by (simp add: eval_str)
  have c2: "candidate ''job.sbatch'' 2 = ''job.2.sbatch''"
    using inst by (simp add: eval_str)
  have below: "\<forall>j<2. candidate ''job.sbatch'' j \<in> dom ?fs"
  proof (intro allI impI)
    fix j :: nat assume "j < 2"
    then have "j = 0 \<or> j = 1" by arith
    with c0 c1 show "candidate ''job.sbatch'' j \<in> dom ?fs" by auto
  qed
  have free: "candidate ''job.sbatch'' 2 \<notin> dom ?fs" by (simp add: c2)
  have "open_sesame (plain_env []) ?fs ''job.sbatch'' =
        Some (if create_denied (plain_env []) (candidate ''job.sbatch'' 2) then Inl OSError
              else Inr (candidate ''job.sbatch'' 2, ?fs(candidate ''job.sbatch'' 2 \<mapsto> [])))"
    using inst below free by blast
  then have "open_sesame (plain_env []) ?fs ''job.sbatch'' =
     Some (Inr (''job.2.sbatch'',
                [''job.sbatch'' \<mapsto> ''first'', ''job.1.sbatch'' \<mapsto> ''second'',
                 ''job.2.sbatch'' \<mapsto> '''']))"
    by (simp add: c2 plain_env_def)
  with c0 c1 c2 show ?thesis by blast
qed

text \<open>
  C7. When the input has a line that is a scheduler directive once stripped, with no
  sentinel line before it, reading ends with \<open>exit(1)\<close> and the run ends with that exit
  in the world it started in: no file is created, nothing is printed, no directory made.
\<close>

theorem directive_input_rejected:
  "select_input e a = Inr (pre @ l # post, jn) \<Longrightarrow> is_directive (strip l) \<Longrightarrow>
   \<forall>x\<in>set pre. strip x \<noteq> ''.'' \<Longrightarrow>
   read_commands [] (pre @ l # post) = Inl (SystemExit 1) \<and>
   main e a w = Some (Raised (SystemExit 1), w)"
  using main_directive [of e a pre l post jn w] read_commands_directive [of l pre "[]" post]
  by blast

theorem directive_input_rejected_witness:
  "select_input
     (plain_env [''echo a\<newline>'', [CHR 0xA0] @ ''#SBATCH -n 1\<newline>'', ''echo b\<newline>'']) default_args =
     Inr ([''echo a\<newline>''] @ ([CHR 0xA0] @ ''#SBATCH -n 1\<newline>'') # [''echo b\<newline>''], ''msub_stdin'') \<and>
   is_directive (strip ([CHR 0xA0] @ ''#SBATCH -n 1\<newline>'')) \<and> strip ''echo a\<newline>'' \<noteq> ''.'' \<and>
   main (plain_env [''echo a\<newline>'', [CHR 0xA0] @ ''#SBATCH -n 1\<newline>'', ''echo b\<newline>''])
     default_args empty_world =
     Some (Raised (SystemExit 1), empty_world)"
proof -
  let ?e = "plain_env [''echo a\<newline>'', [CHR 0xA0] @ ''#SBATCH -n 1\<newline>'', ''echo b\<newline>'']"
  have s: "select_input ?e default_args =
     Inr ([''echo a\<newline>''] @ ([CHR 0xA0] @ ''#SBATCH -n 1\<newline>'') # [''echo b\<newline>''], ''msub_stdin'')"
    by (simp add: select_input_def or_str_def truthy_str_def default_args_def plain_env_def)
  have d: "is_directive (strip ([CHR 0xA0] @ ''#SBATCH -n 1\<newline>''))"
    by (simp add: is_directive_def strip_def is_space_def startswith_def)
  have n: "strip ''echo a\<newline>'' \<noteq> ''.''" by (simp add: strip_def is_space_def)
  then have n': "\<forall>x\<in>set [''echo a\<newline>'']. strip x \<noteq> ''.''" by simp
  from directive_input_rejected [OF s d n', of empty_world] s d n show ?thesis by blast
qed

section \<open>Preview and submission\<close>

lemma main_example:
  assumes rest: "a = default_args\<lparr>nosubmit := b\<rparr>"
  shows "main (plain_env [''echo a\<newline>'']) a empty_world =
     Some (launch (plain_env [''echo a\<newline>'']) a ''msub_stdin.sbatch''
             (empty_world\<lparr>files := [''msub_stdin.sbatch'' \<mapsto>
                contents (snd (write_script \<lparr>fh_name = ''msub_stdin.sbatch'', printed = []\<rparr> a [''echo a'']))]\<rparr>))"
proof -
  let ?e = "plain_env [''echo a\<newline>'']"
  define H where "H = snd (write_script \<lparr>fh_name = ''msub_stdin.sbatch'', printed = []\<rparr> a [''echo a''])"
  have "fst (write_script \<lparr>fh_name = ''msub_stdin.sbatch'', printed = []\<rparr> a [''echo a'']) = None"
    unfolding rest by (simp add: write_script_def eval_header eval_fmt)
  then have ws: "write_script \<lparr>fh_name = ''msub_stdin.sbatch'', printed = []\<rparr> a [''echo a''] = (None, H)"
    unfolding H_def by (metis prod.collapse)
  have si: "select_input ?e a = Inr ([''echo a\<newline>''], ''msub_stdin'')"
    unfolding rest
    by (simp add: select_input_def or_str_def truthy_str_def default_args_def plain_env_def)
  have rc: "read_commands [] [''echo a\<newline>''] = Inr [''echo a'']"
    by (simp add: strip_def is_space_def is_directive_def startswith_def)
  have os: "open_sesame ?e Map.empty ''msub_stdin.sbatch'' =
              Some (Inr (''msub_stdin.sbatch'', [''msub_stdin.sbatch'' \<mapsto> []]))"
    using open_sesame_first_free [of 0 "''msub_stdin.sbatch''" Map.empty ?e]
    by (simp add: candidate_def plain_env_def)
  have tj: "tidy_job_name ''msub_stdin'' = ''msub_stdin''"
    by (simp add: tidy_job_name_def startswith_def)
  have nb: "truthy_str (iinput a) = False"
    unfolding rest by (simp add: truthy_str_def default_args_def)
  show ?thesis
    unfolding H_def [symmetric]
    by (simp add: main_def nb si rc tj os ws empty_world_def del: read_commands.simps)
qed

text \<open>
  C9. In a run with \<open>--nosubmit\<close> no directory is made and the process is never replaced
  by the submitter, however the run ends; so a run that makes the directory or ends in
  the submitter is a run without \<open>--nosubmit\<close>. A run that returns normally is a run with
  \<open>--nosubmit\<close> and has printed one line: \<open>mkdir -p\<close>, the output directory, a semicolon,
  the submitter, the job flags and the script path, joined by spaces. A run that ends in
  the submitter has printed nothing, has made the output directory and passes the job
  flags and the script path. The last step alone, with the submitter resolved: with
  \<open>--nosubmit\<close> it prints that line and changes nothing else; without, when neither system
  call fails, it makes the directory and replaces the process.
\<close>

theorem dry_run_frame:
  "(\<forall>out w'. nosubmit a \<and> main e a w = Some (out, w') \<longrightarrow>
      made_dirs w' = made_dirs w \<and> (\<forall>p argv. out \<noteq> Replaced p argv)) \<and>
   (\<forall>out w'. main e a w = Some (out, w') \<and>
        (made_dirs w' \<noteq> made_dirs w \<or> (\<exists>p argv. out = Replaced p argv)) \<longrightarrow> \<not> nosubmit a) \<and>
   (\<forall>w'. main e a w = Some (Returned, w') \<longrightarrow>
      nosubmit a \<and>
      (\<exists>sbatch script_file. resolve_sbatch e a = Inr sbatch \<and>
         script_file \<in> dom (files w') \<and> script_file \<notin> dom (files w) \<and>
         stdout w' = stdout w @
           [join '' '' ([''mkdir -p'', stdoutdir a, '';'', sbatch] @ job_flags a @ [script_file])])) \<and>
   (\<forall>p argv w'. main e a w = Some (Replaced p argv, w') \<longrightarrow>
      \<not> nosubmit a \<and> resolve_sbatch e a = Inr p \<and> stdout w' = stdout w \<and>
      made_dirs w' = made_dirs w @ [stdoutdir a] \<and>
      (\<exists>script_file. script_file \<in> dom (files w') \<and> argv = [p] @ job_flags a @ [script_file])) \<and>
   (\<forall>sbatch. nosubmit a \<and> resolve_sbatch e a = Inr sbatch \<longrightarrow>
      launch e a script_file w =
        (Returned,
         w\<lparr>stdout := stdout w @
            [join '' '' ([''mkdir -p'', stdoutdir a, '';'', sbatch] @ job_flags a @ [script_file])]\<rparr>)) \<and>
   (\<forall>sbatch. \<not> nosubmit a \<and> resolve_sbatch e a = Inr sbatch \<and>
        \<not> makedirs_fails e (stdoutdir a) \<and> \<not> execlp_fails e sbatch \<longrightarrow>
      launch e a script_file w =
        (Replaced sbatch ([sbatch] @ job_flags a @ [script_file]),
         w\<lparr>made_dirs := made_dirs w @ [stdoutdir a]\<rparr>)) \<and>
   job_flags a =
     [''-p'', queue a, ''--nice='' @ str_int (priority a)] @ (if sync a then [''--wait''] else [])"
proof (intro conjI)
  show "\<forall>out w'. nosubmit a \<and> main e a w = Some (out, w') \<longrightarrow>
      made_dirs w' = made_dirs w \<and> (\<forall>p argv. out \<noteq> Replaced p argv)"
    using main_dry_frame [of e a w] by blast
next
  show "\<forall>out w'. main e a w = Some (out, w') \<and>
        (made_dirs w' \<noteq> made_dirs w \<or> (\<exists>p argv. out = Replaced p argv)) \<longrightarrow> \<not> nosubmit a"
    using main_dry_frame [of e a w] by blast
next
  show "\<forall>w'. main e a w = Some (Returned, w') \<longrightarrow>
      nosubmit a \<and>
      (\<exists>sbatch script_file. resolve_sbatch e a = Inr sbatch \<and>
         script_file \<in> dom (files w') \<and> script_file \<notin> dom (files w) \<and>
         stdout w' = stdout w @
           [join '' '' ([''mkdir -p'', stdoutdir a, '';'', sbatch] @ job_flags a @ [script_file])])"
    using main_Returned [of e a w] by blast
next
  show "\<forall>p argv w'. main e a w = Some (Replaced p argv, w') \<longrightarrow>
      \<not> nosubmit a \<and> resolve_sbatch e a = Inr p \<and> stdout w' = stdout w \<and>
      made_dirs w' = made_dirs w @ [stdoutdir a] \<and>
      (\<exists>script_file. script_file \<in> dom (files w') \<and> argv = [p] @ job_flags a @ [script_file])"
    using main_Replaced [of e a w] by blast
next
  show "\<forall>sbatch. nosubmit a \<and> resolve_sbatch e a = Inr sbatch \<longrightarrow>
      launch e a script_file w =
        (Returned,
         w\<lparr>stdout := stdout w @
            [join '' '' ([''mkdir -p'', stdoutdir a, '';'', sbatch] @ job_flags a @ [script_file])]\<rparr>)"
    using launch_nosubmit [of a e _ script_file w] by blast
next
  show "\<forall>sbatch. \<not> nosubmit a \<and> resolve_sbatch e a = Inr sbatch \<and>
        \<not> makedirs_fails e (stdoutdir a) \<and> \<not> execlp_fails e sbatch \<longrightarrow>
      launch e a script_file w =
        (Replaced sbatch ([sbatch] @ job_flags a @ [script_file]),
         w\<lparr>made_dirs := made_dirs w @ [stdoutdir a]\<rparr>)"
    using launch_live [of a e _ script_file w] by blast
next
  show "job_flags a =
     [''-p'', queue a, ''--nice='' @ str_int (priority a)] @ (if sync a then [''--wait''] else [])"
    by (simp add: job_flags_def)
qed

theorem dry_run_frame_witness:
  "nosubmit (default_args\<lparr>nosubmit := True\<rparr>) \<and>
   map_option fst (main (plain_env [''echo a\<newline>'']) (default_args\<lparr>nosubmit := True\<rparr>) empty_world) =
     Some Returned \<and>
   stdout (snd (the (main (plain_env [''echo a\<newline>'']) (default_args\<lparr>nosubmit := True\<rparr>) empty_world))) =
     [''mkdir -p slurm_output ; sbatch -p global --nice=50 msub_stdin.sbatch''] \<and>
   made_dirs (snd (the (main (plain_env [''echo a\<newline>'']) (default_args\<lparr>nosubmit := True\<rparr>) empty_world))) = [] \<and>
   \<not> nosubmit default_args \<and>
   map_option fst (main (plain_env [''echo a\<newline>'']) default_args empty_world) =
     Some (Replaced ''sbatch'' [''sbatch'', ''-p'', ''global'', ''--nice=50'', ''msub_stdin.sbatch'']) \<and>
   made_dirs (snd (the (main (plain_env [''echo a\<newline>'']) default_args empty_world))) = [''slurm_output'']"
proof -
  let ?e = "plain_env [''echo a\<newline>'']"
  let ?d = "default_args\<lparr>nosubmit := True\<rparr>"
  let ?w = "\<lambda>a. empty_world\<lparr>files := [''msub_stdin.sbatch'' \<mapsto>
                contents (snd (write_script \<lparr>fh_name = ''msub_stdin.sbatch'', printed = []\<rparr> a [''echo a'']))]\<rparr>"
  have nd: "nosubmit ?d" by simp
  have nl: "\<not> nosubmit default_args" by (simp add: default_args_def)
  have rd: "resolve_sbatch ?e ?d = Inr ''sbatch''"
    by (simp add: resolve_sbatch_def default_args_def)
  have rl: "resolve_sbatch ?e default_args = Inr ''sbatch''"
    by (simp add: resolve_sbatch_def default_args_def)
  have jf: "job_flags ?d = [''-p'', ''global'', ''--nice=50'']"
       "job_flags default_args = [''-p'', ''global'', ''--nice=50'']"
    by (simp_all add: job_flags_def default_args_def eval_str)
  have md: "main ?e ?d empty_world = Some (launch ?e ?d ''msub_stdin.sbatch'' (?w ?d))"
    by (rule main_example [of ?d True]) simp
  have ml: "main ?e default_args empty_world =
              Some (launch ?e default_args ''msub_stdin.sbatch'' (?w default_args))"
    by (rule main_example [of default_args False]) (simp add: default_args_def)
  have ld: "launch ?e ?d ''msub_stdin.sbatch'' (?w ?d) =
        (Returned,
         (?w ?d)\<lparr>stdout := stdout (?w ?d) @
            [join '' '' ([''mkdir -p'', stdoutdir ?d, '';'', ''sbatch''] @ job_flags ?d @ [''msub_stdin.sbatch''])]\<rparr>)"
    using dry_run_frame [of ?d ?e "?w ?d" "''msub_stdin.sbatch''"] nd rd by blast
  have ll: "launch ?e default_args ''msub_stdin.sbatch'' (?w default_args) =
        (Replaced ''sbatch'' ([''sbatch''] @ job_flags default_args @ [''msub_stdin.sbatch'']),
         (?w default_args)\<lparr>made_dirs := made_dirs (?w default_args) @ [stdoutdir default_args]\<rparr>)"
    using dry_run_frame [of default_args ?e "?w default_args" "''msub_stdin.sbatch''"] nl rl
    by (simp add: plain_env_def)
  have a: "map_option fst (main ?e ?d empty_world) = Some Returned"
    by (simp add: md ld)
  have b: "stdout (snd (the (main ?e ?d empty_world))) =
     [''mkdir -p slurm_output ; sbatch -p global --nice=50 msub_stdin.sbatch'']"
    unfolding md ld jf by (simp add: empty_world_def default_args_def)
  have c: "made_dirs (snd (the (main ?e ?d empty_world))) = []"
    unfolding md ld by (simp add: empty_world_def)
  have d: "map_option fst (main ?e default_args empty_world) =
     Some (Replaced ''sbatch'' [''sbatch'', ''-p'', ''global'', ''--nice=50'', ''msub_stdin.sbatch''])"
    unfolding ml ll jf by simp
  have f: "made_dirs (snd (the (main ?e default_args empty_world))) = [''slurm_output'']"
    unfolding ml ll by (simp add: empty_world_def default_args_def)
  from nd a b c nl d f show ?thesis by blast
qed

end
